theory Spec2Isabelle
  imports Main "HOL-Library.Sublist" "HOL-Library.Word"
begin

section \<open>Go strings, runes and the library functions used by pkg/cfg/cfg.go\<close>

text \<open>
  A Go \<^verbatim>\<open>string\<close> is a sequence of bytes; Isabelle's \<^typ>\<open>char\<close> is a byte, so a Go
  string is a \<^typ>\<open>string\<close>.  A \<^verbatim>\<open>rune\<close> is an int32 code point.  Every rune handled
  here comes out of the decoder or out of a literal, so it lies in \<open>0 .. 0x10FFFF\<close> and
  the int32 comparisons of the source are comparisons of integers.

  The functions of this section are not part of the repository: they are the Go runtime
  and standard library functions that \<^verbatim>\<open>claimToHeader\<close> calls (\<^verbatim>\<open>range\<close> over a string,
  the conversion \<^verbatim>\<open>string(r)\<close>, \<^verbatim>\<open>strings.TrimPrefix\<close>, \<^verbatim>\<open>strings.Replace\<close>,
  \<^verbatim>\<open>strings.ReplaceAll\<close>, \<^verbatim>\<open>http.CanonicalHeaderKey\<close>), written out as the Go
  language specification and the package documentation define them.
\<close>

type_synonym rune = int

abbreviation byte :: "char \<Rightarrow> int" where
  "byte c \<equiv> of_char c"

definition RuneError :: rune where
  "RuneError = 0xFFFD"

definition MaxRune :: rune where
  "MaxRune = 0x10FFFF"

text \<open>A UTF-8 continuation byte: \<^verbatim>\<open>locb <= b && b <= hicb\<close>.\<close>

definition contByte :: "char \<Rightarrow> bool" where
  "contByte c = (0x80 \<le> byte c \<and> byte c \<le> 0xBF)"

text \<open>
  One step of \<^verbatim>\<open>for _, r := range s\<close>: the rune at the head of a non-empty string and
  the number of bytes it takes.  A byte below \<^verbatim>\<open>utf8.RuneSelf\<close> is its own rune; otherwise
  the runtime's \<^verbatim>\<open>decoderune\<close> reads a two, three or four byte sequence, and answers
  \<^verbatim>\<open>(RuneError, 1)\<close> for everything that is not the shortest encoding of a Unicode scalar
  value.  The masks and shifts of the runtime (\<^verbatim>\<open>s[0]&mask2\<close>, \<^verbatim>\<open><<6\<close>, \<^verbatim>\<open>|\<close>) are
  written as \<open>mod\<close>, multiplication and addition: the bit fields are disjoint.
\<close>

fun decoderune :: "string \<Rightarrow> rune \<times> nat" where
  "decoderune [] = (RuneError, 1)"
| "decoderune (c0 # cs) =
    (if byte c0 < 0x80 then (byte c0, 1)
     else if 0xC0 \<le> byte c0 \<and> byte c0 < 0xE0 then
       (case cs of
          c1 # _ \<Rightarrow>
            if contByte c1 then
              (let r = (byte c0 mod 32) * 64 + byte c1 mod 64
               in if 0x7F < r then (r, 2) else (RuneError, 1))
            else (RuneError, 1)
        | _ \<Rightarrow> (RuneError, 1))
     else if 0xE0 \<le> byte c0 \<and> byte c0 < 0xF0 then
       (case cs of
          c1 # c2 # _ \<Rightarrow>
            if contByte c1 \<and> contByte c2 then
              (let r = (byte c0 mod 16) * 4096 + (byte c1 mod 64) * 64 + byte c2 mod 64
               in if 0x7FF < r \<and> \<not> (0xD800 \<le> r \<and> r \<le> 0xDFFF) then (r, 3)
                  else (RuneError, 1))
            else (RuneError, 1)
        | _ \<Rightarrow> (RuneError, 1))
     else if 0xF0 \<le> byte c0 \<and> byte c0 < 0xF8 then
       (case cs of
          c1 # c2 # c3 # _ \<Rightarrow>
            if contByte c1 \<and> contByte c2 \<and> contByte c3 then
              (let r = (byte c0 mod 8) * 262144 + (byte c1 mod 64) * 4096
                       + (byte c2 mod 64) * 64 + byte c3 mod 64
               in if 0xFFFF < r \<and> r \<le> MaxRune then (r, 4) else (RuneError, 1))
            else (RuneError, 1)
        | _ \<Rightarrow> (RuneError, 1))
     else (RuneError, 1))"

text \<open>The runes that \<^verbatim>\<open>range s\<close> yields, in order.\<close>

fun runes :: "string \<Rightarrow> rune list" where
  "runes [] = []"
| "runes (c # cs) = (case decoderune (c # cs) of (r, w) \<Rightarrow> r # runes (drop (w - 1) cs))"

text \<open>
  \<^verbatim>\<open>utf8.ValidString\<close>: no position of the string decodes to an encoding error (the
  decoder answers \<^verbatim>\<open>RuneError\<close> with width 1 exactly there; a well-formed U+FFFD has
  width 3).
\<close>

fun ValidString :: "string \<Rightarrow> bool" where
  "ValidString [] = True"
| "ValidString (c # cs) =
    (case decoderune (c # cs) of
       (r, w) \<Rightarrow> \<not> (r = RuneError \<and> w = 1) \<and> ValidString (drop (w - 1) cs))"

text \<open>
  The conversion \<^verbatim>\<open>string(r)\<close>: the UTF-8 encoding of the rune, and the encoding of
  U+FFFD for a value that is no Unicode scalar value (the runtime's \<^verbatim>\<open>encoderune\<close>).
\<close>

definition encode3 :: "rune \<Rightarrow> string" where
  "encode3 r =
     [char_of (0xE0 + r div 4096), char_of (0x80 + (r div 64) mod 64), char_of (0x80 + r mod 64)]"

definition encode4 :: "rune \<Rightarrow> string" where
  "encode4 r =
     [char_of (0xF0 + r div 262144), char_of (0x80 + (r div 4096) mod 64),
      char_of (0x80 + (r div 64) mod 64), char_of (0x80 + r mod 64)]"

definition encoderune :: "rune \<Rightarrow> string" where
  "encoderune r =
     (if 0 \<le> r \<and> r \<le> 0x7F then [char_of r]
      else if 0 \<le> r \<and> r \<le> 0x7FF then [char_of (0xC0 + r div 64), char_of (0x80 + r mod 64)]
      else if r < 0 \<or> MaxRune < r \<or> (0xD800 \<le> r \<and> r \<le> 0xDFFF) then encode3 RuneError
      else if r \<le> 0xFFFF then encode3 r
      else encode4 r)"

text \<open>\<^verbatim>\<open>strings.HasPrefix\<close> and \<^verbatim>\<open>strings.TrimPrefix\<close>.\<close>

definition HasPrefix :: "string \<Rightarrow> string \<Rightarrow> bool" where
  "HasPrefix s pre = prefix pre s"

definition TrimPrefix :: "string \<Rightarrow> string \<Rightarrow> string" where
  "TrimPrefix s pre = (if HasPrefix s pre then drop (length pre) s else s)"

text \<open>
  \<^verbatim>\<open>strings.Replace(s, old, new, n)\<close> for a non-empty \<^verbatim>\<open>old\<close> (every call of the source
  passes \<^verbatim>\<open>string(r)\<close>, which has at least one byte): the first \<open>n\<close> non-overlapping
  occurrences of \<open>old\<close>, found from the left, are replaced by \<open>new\<close>; a negative \<open>n\<close> puts
  no limit on the number of replacements.  \<^verbatim>\<open>strings.ReplaceAll(s, old, new)\<close> is
  \<^verbatim>\<open>Replace(s, old, new, -1)\<close>.
\<close>

fun Replace :: "string \<Rightarrow> string \<Rightarrow> string \<Rightarrow> int \<Rightarrow> string" where
  "Replace [] old new n = []"
| "Replace (c # cs) old new n =
    (if n = 0 then c # cs
     else if prefix old (c # cs) then new @ Replace (drop (length old - 1) cs) old new (n - 1)
     else c # Replace cs old new n)"

definition ReplaceAll :: "string \<Rightarrow> string \<Rightarrow> string \<Rightarrow> string" where
  "ReplaceAll s old new = Replace s old new (- 1)"

text \<open>
  \<^verbatim>\<open>http.CanonicalHeaderKey\<close> (\<^verbatim>\<open>textproto.CanonicalMIMEHeaderKey\<close>).  A header field byte is
  valid when it is a token character of RFC 7230: a letter, a digit or one of
  \<^verbatim>\<open>!#$%&'*+-.^_`|~\<close>.  A key that holds any other byte (a space included) is returned
  as it is; otherwise the first letter and every letter after a hyphen are put in upper
  case and every other letter in lower case.
\<close>

definition isLower :: "char \<Rightarrow> bool" where
  "isLower c = (byte CHR ''a'' \<le> byte c \<and> byte c \<le> byte CHR ''z'')"

definition isUpper :: "char \<Rightarrow> bool" where
  "isUpper c = (byte CHR ''A'' \<le> byte c \<and> byte c \<le> byte CHR ''Z'')"

definition isDigit :: "char \<Rightarrow> bool" where
  "isDigit c = (byte CHR ''0'' \<le> byte c \<and> byte c \<le> byte CHR ''9'')"

definition tokenPunct :: string where
  "tokenPunct = ''!#$%&'' @ [CHR 0x27] @ ''*+-.^_'' @ [CHR 0x60] @ ''|~''"

definition validHeaderFieldByte :: "char \<Rightarrow> bool" where
  "validHeaderFieldByte c = (isLower c \<or> isUpper c \<or> isDigit c \<or> c \<in> set tokenPunct)"

text \<open>\<^verbatim>\<open>toLower = 'a' - 'A'\<close>; \<^verbatim>\<open>c -= toLower\<close> and \<^verbatim>\<open>c += toLower\<close> on a letter.\<close>

definition toLower :: int where
  "toLower = byte CHR ''a'' - byte CHR ''A''"

definition canonByte :: "bool \<Rightarrow> char \<Rightarrow> char" where
  "canonByte upper c =
     (if upper \<and> isLower c then char_of (byte c - toLower)
      else if \<not> upper \<and> isUpper c then char_of (byte c + toLower)
      else c)"

fun canonicalize :: "bool \<Rightarrow> string \<Rightarrow> string" where
  "canonicalize upper [] = []"
| "canonicalize upper (c # cs) =
    (let c' = canonByte upper c in c' # canonicalize (c' = CHR ''-'') cs)"

definition CanonicalHeaderKey :: "string \<Rightarrow> string" where
  "CanonicalHeaderKey s = (if list_all validHeaderFieldByte s then canonicalize True s else s)"


section \<open>The configuration (type Config)\<close>

text \<open>
  The struct \<^verbatim>\<open>Config\<close> and its four anonymous sub-structs, field by field.  Go's \<^verbatim>\<open>int\<close>
  is only compared, never computed with, so it is \<^typ>\<open>int\<close>.  A slice is a list (a nil
  slice and an empty one both have length 0, the only thing the source asks of them); the
  map \<^verbatim>\<open>ClaimsCleaned\<close> is a partial function from the raw claim to its header.
\<close>

record jwt_config =
  JWT_MaxAge :: int
  JWT_Issuer :: string
  JWT_Secret :: string
  JWT_Compress :: bool

record cookie_config =
  Cookie_Name :: string
  Cookie_Domain :: string
  Cookie_Secure :: bool
  Cookie_HTTPOnly :: bool
  Cookie_MaxAge :: int
  Cookie_SameSite :: string

record headers_config =
  Headers_JWT :: string
  Headers_User :: string
  Headers_QueryString :: string
  Headers_Redirect :: string
  Headers_Success :: string
  Headers_ClaimHeader :: string
  Headers_Claims :: "string list"
  Headers_AccessToken :: string
  Headers_IDToken :: string
  Headers_ClaimsCleaned :: "string \<rightharpoonup> string"

record session_config =
  Session_Name :: string
  Session_Key :: string

record Config =
  LogLevel :: string
  Listen :: string
  Port :: int
  Domains :: "string list"
  WhiteList :: "string list"
  TeamWhiteList :: "string list"
  AllowAllUsers :: bool
  PublicAccess :: bool
  JWT :: jwt_config
  Cookie :: cookie_config
  Headers :: headers_config
  Session :: session_config
  TestURL :: string
  TestURLs :: "string list"
  Testing :: bool
  LogoutRedirectURLs :: "string list"

text \<open>The zero value \<^verbatim>\<open>Config{}\<close>.\<close>

definition zeroConfig :: Config where
  "zeroConfig =
     \<lparr>LogLevel = [], Listen = [], Port = 0, Domains = [], WhiteList = [], TeamWhiteList = [],
      AllowAllUsers = False, PublicAccess = False,
      JWT = \<lparr>JWT_MaxAge = 0, JWT_Issuer = [], JWT_Secret = [], JWT_Compress = False\<rparr>,
      Cookie = \<lparr>Cookie_Name = [], Cookie_Domain = [], Cookie_Secure = False,
                Cookie_HTTPOnly = False, Cookie_MaxAge = 0, Cookie_SameSite = []\<rparr>,
      Headers = \<lparr>Headers_JWT = [], Headers_User = [], Headers_QueryString = [],
                 Headers_Redirect = [], Headers_Success = [], Headers_ClaimHeader = [],
                 Headers_Claims = [], Headers_AccessToken = [], Headers_IDToken = [],
                 Headers_ClaimsCleaned = Map.empty\<rparr>,
      Session = \<lparr>Session_Name = [], Session_Key = []\<rparr>,
      TestURL = [], TestURLs = [], Testing = False, LogoutRedirectURLs = []\<rparr>"

text \<open>The variable \<^verbatim>\<open>Branding\<close>, the list \<^verbatim>\<open>RequiredOptions\<close>.\<close>

definition LCName :: string where "LCName = ''vouch''"
definition UCName :: string where "UCName = ''VOUCH''"
definition CcName :: string where "CcName = ''Vouch''"
definition FullName :: string where "FullName = ''Vouch Proxy''"
definition OldLCName :: string where "OldLCName = ''lasso''"
definition URL :: string where "URL = ''https://github.com/vouch/vouch-proxy''"

definition RequiredOptions :: "string list" where
  "RequiredOptions = [''oauth.provider'', ''oauth.client_id'']"

section \<open>Errors and the log\<close>

text \<open>
  The errors \<^verbatim>\<open>basicTest\<close> builds, one constructor for each \<^verbatim>\<open>errors.New\<close> and
  \<^verbatim>\<open>fmt.Errorf\<close> of the source with the values it formats, and \<open>LibraryError\<close> for an error
  that comes out of a function which is not in \<^verbatim>\<open>cfg.go\<close> (viper, \<^verbatim>\<open>oauthBasicTest\<close>).
  A log entry is the level of the call, its text and the error it prints, if any.
\<close>

datatype error =
    LibraryError string
  | RequiredOptionNotSet string
  | DomainsOrAllowAllUsersNotSet
  | CookieMaxAgeNegative int
  | JWTMaxAgeNotPositive int
  | CookieMaxAgeTooLarge int int

datatype level = DebugLevel | InfoLevel | WarnLevel | ErrorLevel | FatalLevel | PanicLevel

datatype logentry = Log level string "error option"

section \<open>viper and mapstructure: decoding a document into the configuration\<close>

text \<open>
  \<^verbatim>\<open>viper.UnmarshalKey(key, &Cfg)\<close> is library code.  The functions of the source that
  call it take it as a parameter: the decoder over whatever document viper holds at
  that moment, from the top-level key and the configuration it decodes into to the
  configuration it leaves and its error.
\<close>

type_synonym unmarshal = "string \<Rightarrow> Config \<Rightarrow> Config \<times> error option"

text \<open>
  To evaluate the pipeline on concrete documents, the parsed document is modelled too: a
  document maps a top-level key to the section under it, and a section says for every
  field of \<^verbatim>\<open>Config\<close> and of its sub-structs that carries a \<^verbatim>\<open>mapstructure\<close> tag, and for
  the four sub-structs, whether the document defines its key (\<open>Some\<close>) or not (\<open>None\<close>:
  the key is absent or null).  The values are taken well-typed, so that the decoder
  reports no error: a string for a string field, a list of strings for a slice, a
  boolean for a flag, and for an integer field an integer the parser reads as \<^verbatim>\<open>int\<close> or as
  \<^verbatim>\<open>uint64\<close>, which is its 64 bits.  The map \<^verbatim>\<open>ClaimsCleaned\<close> carries no tag; \<^verbatim>\<open>cleanClaimsHeaders\<close> builds
  it, and the documents here do not define it.
\<close>

record jwt_doc =
  jwt_maxAge :: "64 word option"
  jwt_issuer :: "string option"
  jwt_secret :: "string option"
  jwt_compress :: "bool option"

record cookie_doc =
  cookie_name :: "string option"
  cookie_domain :: "string option"
  cookie_secure :: "bool option"
  cookie_httpOnly :: "bool option"
  cookie_maxage :: "64 word option"
  cookie_sameSite :: "string option"

record headers_doc =
  headers_jwt :: "string option"
  headers_user :: "string option"
  headers_querystring :: "string option"
  headers_redirect :: "string option"
  headers_success :: "string option"
  headers_claimheader :: "string option"
  headers_claims :: "string list option"
  headers_accesstoken :: "string option"
  headers_idtoken :: "string option"

record session_doc =
  session_name :: "string option"
  session_key :: "string option"

record config_doc =
  doc_logLevel :: "string option"
  doc_listen :: "string option"
  doc_port :: "64 word option"
  doc_domains :: "string list option"
  doc_whitelist :: "string list option"
  doc_teamWhitelist :: "string list option"
  doc_allowAllUsers :: "bool option"
  doc_publicAccess :: "bool option"
  doc_jwt :: "jwt_doc option"
  doc_cookie :: "cookie_doc option"
  doc_headers :: "headers_doc option"
  doc_session :: "session_doc option"
  doc_test_url :: "string option"
  doc_test_urls :: "string list option"
  doc_testing :: "bool option"
  doc_post_logout_redirect_uris :: "string list option"

type_synonym document = "string \<rightharpoonup> config_doc"

text \<open>
  \<^verbatim>\<open>mapstructure\<close> decodes a map into a struct that already holds values (the decoder
  configuration of viper leaves \<^verbatim>\<open>ZeroFields\<close> unset, and \<^verbatim>\<open>Cfg\<close> is not nil, so the decoder
  writes into the struct \<^verbatim>\<open>Cfg\<close> points to): a field whose key the map does not define
  keeps its value, a field whose key the map defines is decoded from the map's value,
  whatever it held before.  A slice that the map defines is written element by element
  over the slice the field holds.
\<close>

definition decodeField :: "'a option \<Rightarrow> 'a \<Rightarrow> 'a" where
  "decodeField input field = (case input of None \<Rightarrow> field | Some v \<Rightarrow> v)"

text \<open>
  An integer field: the decoder stores the 64 bits of the document's integer as an
  \<^verbatim>\<open>int64\<close> (\<^verbatim>\<open>SetInt(dataVal.Int())\<close>, and \<^verbatim>\<open>SetInt(int64(dataVal.Uint()))\<close> for an integer
  from \<open>2^63\<close> on, which so turns negative).
\<close>

definition decodeInt :: "64 word option \<Rightarrow> int \<Rightarrow> int" where
  "decodeInt input field = (case input of None \<Rightarrow> field | Some w \<Rightarrow> sint w)"

definition decodeSlice :: "'a list option \<Rightarrow> 'a list \<Rightarrow> 'a list" where
  "decodeSlice input field = (case input of None \<Rightarrow> field | Some vs \<Rightarrow> vs @ drop (length vs) field)"

definition decodeJWT :: "jwt_doc \<Rightarrow> jwt_config \<Rightarrow> jwt_config" where
  "decodeJWT d j =
     \<lparr>JWT_MaxAge = decodeInt (jwt_maxAge d) (JWT_MaxAge j),
      JWT_Issuer = decodeField (jwt_issuer d) (JWT_Issuer j),
      JWT_Secret = decodeField (jwt_secret d) (JWT_Secret j),
      JWT_Compress = decodeField (jwt_compress d) (JWT_Compress j)\<rparr>"

definition decodeCookie :: "cookie_doc \<Rightarrow> cookie_config \<Rightarrow> cookie_config" where
  "decodeCookie d c =
     \<lparr>Cookie_Name = decodeField (cookie_name d) (Cookie_Name c),
      Cookie_Domain = decodeField (cookie_domain d) (Cookie_Domain c),
      Cookie_Secure = decodeField (cookie_secure d) (Cookie_Secure c),
      Cookie_HTTPOnly = decodeField (cookie_httpOnly d) (Cookie_HTTPOnly c),
      Cookie_MaxAge = decodeInt (cookie_maxage d) (Cookie_MaxAge c),
      Cookie_SameSite = decodeField (cookie_sameSite d) (Cookie_SameSite c)\<rparr>"

definition decodeHeaders :: "headers_doc \<Rightarrow> headers_config \<Rightarrow> headers_config" where
  "decodeHeaders d h =
     \<lparr>Headers_JWT = decodeField (headers_jwt d) (Headers_JWT h),
      Headers_User = decodeField (headers_user d) (Headers_User h),
      Headers_QueryString = decodeField (headers_querystring d) (Headers_QueryString h),
      Headers_Redirect = decodeField (headers_redirect d) (Headers_Redirect h),
      Headers_Success = decodeField (headers_success d) (Headers_Success h),
      Headers_ClaimHeader = decodeField (headers_claimheader d) (Headers_ClaimHeader h),
      Headers_Claims = decodeSlice (headers_claims d) (Headers_Claims h),
      Headers_AccessToken = decodeField (headers_accesstoken d) (Headers_AccessToken h),
      Headers_IDToken = decodeField (headers_idtoken d) (Headers_IDToken h),
      Headers_ClaimsCleaned = Headers_ClaimsCleaned h\<rparr>"

definition decodeSession :: "session_doc \<Rightarrow> session_config \<Rightarrow> session_config" where
  "decodeSession d s =
     \<lparr>Session_Name = decodeField (session_name d) (Session_Name s),
      Session_Key = decodeField (session_key d) (Session_Key s)\<rparr>"

definition decodeConfig :: "config_doc \<Rightarrow> Config \<Rightarrow> Config" where
  "decodeConfig d c =
     \<lparr>LogLevel = decodeField (doc_logLevel d) (LogLevel c),
      Listen = decodeField (doc_listen d) (Listen c),
      Port = decodeInt (doc_port d) (Port c),
      Domains = decodeSlice (doc_domains d) (Domains c),
      WhiteList = decodeSlice (doc_whitelist d) (WhiteList c),
      TeamWhiteList = decodeSlice (doc_teamWhitelist d) (TeamWhiteList c),
      AllowAllUsers = decodeField (doc_allowAllUsers d) (AllowAllUsers c),
      PublicAccess = decodeField (doc_publicAccess d) (PublicAccess c),
      JWT = (case doc_jwt d of None \<Rightarrow> JWT c | Some j \<Rightarrow> decodeJWT j (JWT c)),
      Cookie = (case doc_cookie d of None \<Rightarrow> Cookie c | Some k \<Rightarrow> decodeCookie k (Cookie c)),
      Headers = (case doc_headers d of None \<Rightarrow> Headers c | Some h \<Rightarrow> decodeHeaders h (Headers c)),
      Session = (case doc_session d of None \<Rightarrow> Session c | Some s \<Rightarrow> decodeSession s (Session c)),
      TestURL = decodeField (doc_test_url d) (TestURL c),
      TestURLs = decodeSlice (doc_test_urls d) (TestURLs c),
      Testing = decodeField (doc_testing d) (Testing c),
      LogoutRedirectURLs =
        decodeSlice (doc_post_logout_redirect_uris d) (LogoutRedirectURLs c)\<rparr>"

text \<open>
  \<^verbatim>\<open>UnmarshalKey\<close> of the source (\<^verbatim>\<open>viper.UnmarshalKey\<close>) over a document: a key the
  document does not hold decodes nothing.
\<close>

definition UnmarshalKey :: "document \<Rightarrow> unmarshal" where
  "UnmarshalKey doc key cfg =
     (case doc key of None \<Rightarrow> (cfg, None) | Some d \<Rightarrow> (decodeConfig d cfg, None))"

text \<open>
  \<^verbatim>\<open>viper.IsSet(key)\<close> over a document, for the keys \<^verbatim>\<open>basicTest\<close> asks for: a key is set
  when the document holds it with a value that is not null, whatever the value (a flag
  that is \<^verbatim>\<open>false\<close> and a list that is empty are set).  \<^verbatim>\<open>vouch.allowAllUsers\<close> and
  \<^verbatim>\<open>vouch.domains\<close> are looked up in the section \<^verbatim>\<open>vouch\<close> of the document; the section
  \<^verbatim>\<open>lasso\<close> is not looked at.  The keys of the section \<^verbatim>\<open>oauth\<close>, whose type is declared
  outside \<^verbatim>\<open>cfg.go\<close>, are answered by the parameter \<open>oauthIsSet\<close>.
\<close>

definition viperIsSet :: "document \<Rightarrow> (string \<Rightarrow> bool) \<Rightarrow> string \<Rightarrow> bool" where
  "viperIsSet doc oauthIsSet key =
     (if key = ''vouch.allowAllUsers'' then
        (case doc ''vouch'' of None \<Rightarrow> False | Some d \<Rightarrow> doc_allowAllUsers d \<noteq> None)
      else if key = ''vouch.domains'' then
        (case doc ''vouch'' of None \<Rightarrow> False | Some d \<Rightarrow> doc_domains d \<noteq> None)
      else oauthIsSet key)"


section \<open>parseConfig\<close>

text \<open>
  What \<^verbatim>\<open>parseConfig\<close> reads from outside: the environment variable \<^verbatim>\<open>VOUCH_CONFIG\<close>, the
  command line flag \<^verbatim>\<open>-config\<close>, the error of \<^verbatim>\<open>viper.ReadInConfig\<close> and the error of
  \<^verbatim>\<open>checkConfigFileWellFormed\<close>.  The calls that tell viper where to look
  (\<^verbatim>\<open>SetConfigFile\<close>, \<^verbatim>\<open>AddConfigPath\<close>, \<^verbatim>\<open>SetConfigName\<close>, \<^verbatim>\<open>SetConfigType\<close>) decide which
  file \<^verbatim>\<open>ReadInConfig\<close> reads; its outcome is the input here.
\<close>

record parse_inputs =
  configEnv :: string
  CmdLine_configFile :: string
  ReadInConfig_err :: "error option"
  checkConfigFileWellFormed_err :: "error option"

text \<open>
  The text of the \<^verbatim>\<open>log.Errorf\<close> call of lines 263 to 268, with its three \<^verbatim>\<open>%s\<close> filled
  in.
\<close>

definition migrationMessage :: string where
  "migrationMessage =
     [CHR 0x0A, CHR 0x0A] @ ''IMPORTANT!'' @ [CHR 0x0A, CHR 0x0A]
     @ ''please update your config file to change '' @ [CHR 0x27] @ OldLCName @ '':'' @ [CHR 0x27]
     @ '' to '' @ [CHR 0x27] @ LCName @ '':'' @ [CHR 0x27] @ '' as per '' @ URL
     @ [CHR 0x0A, CHR 0x09, CHR 0x09, CHR 0x09]"

definition logError :: "error option \<Rightarrow> logentry list" where
  "logError err = (case err of None \<Rightarrow> [] | Some e \<Rightarrow> [Log ErrorLevel [] (Some e)])"

text \<open>
  \<^verbatim>\<open>parseConfig\<close> works on the global \<^verbatim>\<open>Cfg\<close>: it takes the configuration \<^verbatim>\<open>Cfg\<close> points
  to and returns the one it points to afterwards, with the log entries written on the
  way.  \<^verbatim>\<open>log.Fatalf\<close> ends the process: the result is then \<open>Inl\<close> of the log.
\<close>

definition parseConfig ::
  "unmarshal \<Rightarrow> parse_inputs \<Rightarrow> Config \<Rightarrow> logentry list + Config \<times> logentry list" where
  "parseConfig unmarshalKey inp Cfg =
     (let log0 =
            (if configEnv inp \<noteq> [] then
               [Log WarnLevel
                  (''config file loaded from environmental variable '' @ UCName @ ''_CONFIG''
                   @ '': '' @ configEnv inp) None]
             else if CmdLine_configFile inp \<noteq> [] then
               [Log InfoLevel (''config file set on commandline: '' @ CmdLine_configFile inp) None]
             else [])
      in case ReadInConfig_err inp of
           Some err \<Rightarrow> Inl (log0 @ [Log FatalLevel ''Fatal error config file: '' (Some err)])
         | None \<Rightarrow>
             (let log1 = log0 @
                    (case checkConfigFileWellFormed_err inp of
                       None \<Rightarrow> []
                     | Some err \<Rightarrow>
                         [Log ErrorLevel
                            (''configuration error: config file should have only two top level elements: ''
                             @ [CHR 0x60] @ ''vouch'' @ [CHR 0x60] @ '' and '' @ [CHR 0x60] @ ''oauth''
                             @ [CHR 0x60] @ ''.  These and other syntax errors follow...'') None,
                          Log ErrorLevel [] (Some err),
                          Log ErrorLevel
                            (''continuing... (maybe you know what you'' @ [CHR 0x27]
                             @ ''re doing :)'') None]);
                  (cfg1, err1) = unmarshalKey LCName Cfg;
                  log2 = log1 @ logError err1
              in if length (Domains cfg1) = 0 then
                   (let (oldConfig, err2) = unmarshalKey OldLCName zeroConfig;
                        log3 = log2 @ logError err2
                    in if length (Domains oldConfig) \<noteq> 0 then
                         Inr (oldConfig, log3 @ [Log ErrorLevel migrationMessage None])
                       else Inr (cfg1, log3))
                 else Inr (cfg1, log2)))"

section \<open>setDefaults\<close>

text \<open>
  \<^verbatim>\<open>setDefaults\<close> points viper at the file \<^verbatim>\<open>.defaults\<close>, reads it (the error of
  \<^verbatim>\<open>ReadInConfig\<close> is dropped) and decodes the key \<^verbatim>\<open>vouch\<close> into the configuration that
  \<^verbatim>\<open>parseConfig\<close> left in \<^verbatim>\<open>Cfg\<close>.  The parameter is \<^verbatim>\<open>viper.UnmarshalKey\<close> over what viper
  holds after that read: the defaults document when the read succeeds
  (\<^verbatim>\<open>ReadInConfig\<close> puts the document it reads in the place of the one viper held; it
  does not merge the two), the primary document still when it fails.  The health check
  flag only chooses between two returns; the debug line that prints \<^verbatim>\<open>Cfg\<close> is left out.
\<close>

definition setDefaults :: "unmarshal \<Rightarrow> bool \<Rightarrow> Config \<Rightarrow> Config \<times> logentry list" where
  "setDefaults unmarshalKey IsHealthCheck Cfg =
     (let (cfg1, err) = unmarshalKey LCName Cfg;
          log1 = logError err
      in if IsHealthCheck then (cfg1, log1) else (cfg1, log1))"

section \<open>basicTest and ValidateConfiguration\<close>

text \<open>
  \<^verbatim>\<open>basicTest\<close> asks three things of code that is not in this file: the result of
  \<^verbatim>\<open>oauthBasicTest()\<close> (the text of its error, or \<open>None\<close> for \<^verbatim>\<open>nil\<close>), \<^verbatim>\<open>viper.IsSet\<close> over
  what viper holds when it runs, and the configuration \<^verbatim>\<open>Cfg\<close>.  The two warnings about
  a short secret and a short session key only write to the log and are left out.
\<close>

fun requiredOptionsSet :: "(string \<Rightarrow> bool) \<Rightarrow> string list \<Rightarrow> error option" where
  "requiredOptionsSet IsSet [] = None"
| "requiredOptionsSet IsSet (opt # opts) =
     (if \<not> IsSet opt then Some (RequiredOptionNotSet opt) else requiredOptionsSet IsSet opts)"

definition basicTest :: "string option \<Rightarrow> (string \<Rightarrow> bool) \<Rightarrow> Config \<Rightarrow> error option" where
  "basicTest oauthBasicTest IsSet Cfg =
     (case oauthBasicTest of
        Some err \<Rightarrow> Some (LibraryError err)
      | None \<Rightarrow>
          (case requiredOptionsSet IsSet RequiredOptions of
             Some err \<Rightarrow> Some err
           | None \<Rightarrow>
               if \<not> IsSet (LCName @ ''.allowAllUsers'') \<and> \<not> IsSet (LCName @ ''.domains'') then
                 Some DomainsOrAllowAllUsersNotSet
               else if Cookie_MaxAge (Cookie Cfg) < 0 then
                 Some (CookieMaxAgeNegative (Cookie_MaxAge (Cookie Cfg)))
               else if JWT_MaxAge (JWT Cfg) \<le> 0 then
                 Some (JWTMaxAgeNotPositive (JWT_MaxAge (JWT Cfg)))
               else if Cookie_MaxAge (Cookie Cfg) > JWT_MaxAge (JWT Cfg) then
                 Some (CookieMaxAgeTooLarge (Cookie_MaxAge (Cookie Cfg)) (JWT_MaxAge (JWT Cfg)))
               else None))"

text \<open>
  \<^verbatim>\<open>ValidateConfiguration\<close>: \<^verbatim>\<open>log.Panic(errT)\<close> is \<open>Inl\<close> of the error, a return is \<open>Inr\<close>.
  The switch to the development logger under \<^verbatim>\<open>Cfg.Testing\<close> and the last debug line only
  touch the logger and are left out.
\<close>

definition ValidateConfiguration ::
  "string option \<Rightarrow> (string \<Rightarrow> bool) \<Rightarrow> Config \<Rightarrow> error + unit" where
  "ValidateConfiguration oauthBasicTest IsSet Cfg =
     (case basicTest oauthBasicTest IsSet Cfg of Some errT \<Rightarrow> Inl errT | None \<Rightarrow> Inr ())"

section \<open>claimToHeader and cleanClaimsHeaders\<close>

text \<open>The raw string literal of line 381, byte by byte.\<close>

definition disallowed :: string where
  "disallowed = [CHR 0x22] @ ''(),/'' @ [CHR 0x5C] @ '':;<=>?@[]{}_.''"

text \<open>
  Lines 381 to 383: for every rune of the literal, every occurrence of \<^verbatim>\<open>string(r)\<close> in
  the claim becomes a hyphen.
\<close>

definition replaceDisallowed :: "string \<Rightarrow> string" where
  "replaceDisallowed claim =
     foldl (\<lambda>claim r. ReplaceAll claim (encoderune r) ''-'') claim (runes disallowed)"

text \<open>
  Lines 389 to 395.  The \<^verbatim>\<open>range\<close> expression is evaluated once, so the loop runs over
  the claim as it stood before the loop (the first argument: what is left of it), while
  the body rewrites the variable \<^verbatim>\<open>claim\<close> (the second argument): the first occurrence of
  \<^verbatim>\<open>string(r)\<close> in the claim as it stands now becomes a hyphen.
\<close>

fun replaceNonPrintable :: "string \<Rightarrow> string \<Rightarrow> string" where
  "replaceNonPrintable [] claim = claim"
| "replaceNonPrintable (c # cs) claim =
    (case decoderune (c # cs) of
       (r, w) \<Rightarrow>
         replaceNonPrintable (drop (w - 1) cs)
           (if r < 33 \<or> r > 126 then Replace claim (encoderune r) ''-'' 1 else claim))"

text \<open>
  Lines 373 to 395 of \<^verbatim>\<open>claimToHeader\<close>: the claim without its scheme, with hyphens for
  the disallowed and the non-printable characters.
\<close>

definition sanitizeClaim :: "string \<Rightarrow> string" where
  "sanitizeClaim claim =
     (let claim = TrimPrefix claim ''http://'';
          claim = TrimPrefix claim ''https://'';
          claim = replaceDisallowed claim
      in replaceNonPrintable claim claim)"

text \<open>
  \<^verbatim>\<open>claimToHeader\<close> reads \<^verbatim>\<open>Cfg.Headers.ClaimHeader\<close> and returns the header and the
  error, which is always written \<^verbatim>\<open>nil\<close> (\<open>None\<close>).  Its log calls do not touch the
  result and are left out.
\<close>

definition claimToHeader :: "Config \<Rightarrow> string \<Rightarrow> string \<times> error option" where
  "claimToHeader Cfg claim =
     (let claim = sanitizeClaim claim;
          claim = Headers_ClaimHeader (Headers Cfg) @ CanonicalHeaderKey claim
      in (claim, None))"

text \<open>
  \<^verbatim>\<open>cleanClaimsHeaders\<close>: the loop over \<^verbatim>\<open>Cfg.Headers.Claims\<close> that fills the map
  \<^verbatim>\<open>cleanedHeaders\<close>, keyed by the raw claim, and returns early on an error; then the
  assignment to \<^verbatim>\<open>Cfg.Headers.ClaimsCleaned\<close>.
\<close>

fun cleanedHeadersLoop ::
  "Config \<Rightarrow> string list \<Rightarrow> (string \<rightharpoonup> string) \<Rightarrow> error + (string \<rightharpoonup> string)" where
  "cleanedHeadersLoop Cfg [] cleanedHeaders = Inr cleanedHeaders"
| "cleanedHeadersLoop Cfg (claim # claims) cleanedHeaders =
    (case claimToHeader Cfg claim of
       (header, Some err) \<Rightarrow> Inl err
     | (header, None) \<Rightarrow> cleanedHeadersLoop Cfg claims (cleanedHeaders(claim \<mapsto> header)))"

definition cleanClaimsHeaders :: "Config \<Rightarrow> Config \<times> error option" where
  "cleanClaimsHeaders Cfg =
     (case cleanedHeadersLoop Cfg (Headers_Claims (Headers Cfg)) Map.empty of
        Inl err \<Rightarrow> (Cfg, Some err)
      | Inr cleanedHeaders \<Rightarrow>
          (Cfg\<lparr>Headers := (Headers Cfg)\<lparr>Headers_ClaimsCleaned := cleanedHeaders\<rparr>\<rparr>, None))"


section \<open>What the claims speak of\<close>

text \<open>
  A byte of the printable ASCII range 33 to 126, and a string free of the disallowed
  characters and of characters outside that range.
\<close>

definition printable :: "char \<Rightarrow> bool" where
  "printable c = (33 \<le> byte c \<and> byte c \<le> 126)"

definition cleanByte :: "char \<Rightarrow> bool" where
  "cleanByte c = (printable c \<and> c \<notin> set disallowed)"

text \<open>
  The single pass that the source's loop over the non-printable characters is compared
  with: every character of the string (every rune that \<^verbatim>\<open>range\<close> yields) whose code
  point is below 33 or above 126 becomes a hyphen, every other character stays.
\<close>

definition replaceNonPrintableRunes :: "string \<Rightarrow> string" where
  "replaceNonPrintableRunes s =
     concat (map (\<lambda>r. if r < 33 \<or> r > 126 then ''-'' else encoderune r) (runes s))"

text \<open>
  The bytes a header can hold after the prefix: a letter, a digit, a hyphen, or one of
  the token characters \<^verbatim>\<open>!#$%&'*+^`|~\<close> that the source does not replace.
\<close>

definition keptPunct :: string where
  "keptPunct = ''!#$%&'' @ [CHR 0x27] @ ''*+^'' @ [CHR 0x60] @ ''|~''"

definition letterDigitHyphen :: "char \<Rightarrow> bool" where
  "letterDigitHyphen c = (isLower c \<or> isUpper c \<or> isDigit c \<or> c = CHR ''-'')"

definition headerBodyByte :: "char \<Rightarrow> bool" where
  "headerBodyByte c = (letterDigitHyphen c \<or> c \<in> set keptPunct)"

text \<open>The configuration with another claim header prefix.\<close>

definition withClaimHeader :: "string \<Rightarrow> Config \<Rightarrow> Config" where
  "withClaimHeader p Cfg = Cfg\<lparr>Headers := (Headers Cfg)\<lparr>Headers_ClaimHeader := p\<rparr>\<rparr>"

text \<open>The configuration with another claim list.\<close>

definition withClaims :: "string list \<Rightarrow> Config \<Rightarrow> Config" where
  "withClaims cs Cfg = Cfg\<lparr>Headers := (Headers Cfg)\<lparr>Headers_Claims := cs\<rparr>\<rparr>"

text \<open>
  Example documents: a section that defines no key, a primary document whose section
  \<^verbatim>\<open>vouch\<close> sets only \<^verbatim>\<open>cookie.name\<close>, a defaults document whose section \<^verbatim>\<open>vouch\<close> sets
  \<^verbatim>\<open>cookie.name\<close> and \<^verbatim>\<open>cookie.maxage\<close>, and a document with the legacy section \<^verbatim>\<open>lasso\<close>.
\<close>

definition emptyCookie :: cookie_doc where
  "emptyCookie =
     \<lparr>cookie_name = None, cookie_domain = None, cookie_secure = None, cookie_httpOnly = None,
      cookie_maxage = None, cookie_sameSite = None\<rparr>"

definition emptySection :: config_doc where
  "emptySection =
     \<lparr>doc_logLevel = None, doc_listen = None, doc_port = None, doc_domains = None,
      doc_whitelist = None, doc_teamWhitelist = None, doc_allowAllUsers = None,
      doc_publicAccess = None, doc_jwt = None, doc_cookie = None, doc_headers = None,
      doc_session = None, doc_test_url = None, doc_test_urls = None, doc_testing = None,
      doc_post_logout_redirect_uris = None\<rparr>"

definition primaryExample :: document where
  "primaryExample =
     [''vouch'' \<mapsto> emptySection\<lparr>doc_cookie := Some (emptyCookie\<lparr>cookie_name := Some ''MyCookie''\<rparr>)\<rparr>]"

definition defaultsExample :: document where
  "defaultsExample =
     [''vouch'' \<mapsto> emptySection\<lparr>doc_cookie :=
        Some (emptyCookie\<lparr>cookie_name := Some ''VouchCookie'', cookie_maxage := Some 240\<rparr>)\<rparr>]"

definition legacyExample :: document where
  "legacyExample =
     [''vouch'' \<mapsto> emptySection\<lparr>doc_port := Some 9090,
        doc_cookie := Some (emptyCookie\<lparr>cookie_name := Some ''MyCookie''\<rparr>)\<rparr>,
      ''lasso'' \<mapsto> emptySection\<lparr>doc_domains := Some [''example.com'']\<rparr>]"

text \<open>
  Two more documents: one that has only the legacy section \<^verbatim>\<open>lasso\<close>, with a domain
  list, and one whose section \<^verbatim>\<open>vouch\<close> sets \<^verbatim>\<open>allowAllUsers\<close> to \<^verbatim>\<open>false\<close>, a maximal age
  of the JWT, and no domains.
\<close>

definition emptyJWT :: jwt_doc where
  "emptyJWT = \<lparr>jwt_maxAge = None, jwt_issuer = None, jwt_secret = None, jwt_compress = None\<rparr>"

definition legacyOnlyExample :: document where
  "legacyOnlyExample = [''lasso'' \<mapsto> emptySection\<lparr>doc_domains := Some [''example.com'']\<rparr>]"

definition flagFalseExample :: document where
  "flagFalseExample =
     [''vouch'' \<mapsto> emptySection\<lparr>doc_allowAllUsers := Some False,
        doc_jwt := Some (emptyJWT\<lparr>jwt_maxAge := Some 240\<rparr>)\<rparr>]"

definition exampleInputs :: parse_inputs where
  "exampleInputs =
     \<lparr>configEnv = [], CmdLine_configFile = [], ReadInConfig_err = None,
      checkConfigFileWellFormed_err = None\<rparr>"


section \<open>Lemmas on bytes, runes and the UTF-8 encoding\<close>

text \<open>The decoder is unfolded only where a proof asks for it.\<close>

declare decoderune.simps [simp del]

lemma byte_bounds: "0 \<le> byte c \<and> byte c < 256"
  by (metis of_char_mod_256 pos_mod_bound pos_mod_sign zero_less_numeral)

lemma mod_shift: "0 \<le> x \<Longrightarrow> x < m \<Longrightarrow> (k * m + x) mod m = (x::int)"
  by simp

lemma divmod64:
  fixes q z :: int
  assumes "0 \<le> z" "z < 64"
  shows "(q * 64 + z) div 64 = q" and "(q * 64 + z) mod 64 = z"
  using assms by simp_all

lemma div4096: "(r::int) div 4096 = (r div 64) div 64"
  using zdiv_zmult2_eq [of 64 r 64] by simp

lemma div262144: "(r::int) div 262144 = ((r div 64) div 64) div 64"
  using zdiv_zmult2_eq [of 64 r 4096] div4096 [of r] zdiv_zmult2_eq [of 4096 r 64] by simp

lemma contByte_split:
  assumes "contByte c"
  obtains y where "byte c = 128 + y" "0 \<le> y" "y < 64" "byte c mod 64 = y"
proof -
  define y where "y = byte c - 128"
  have 1: "byte c = 128 + y" by (simp add: y_def)
  have 2: "0 \<le> y" "y < 64" using assms by (simp_all add: y_def contByte_def)
  have "byte c mod 64 = y" unfolding 1 using mod_shift [of y 64 2] 2 by simp
  with 1 2 show ?thesis using that by blast
qed

text \<open>
  Encoding undoes decoding: where the decoder reads a well-formed sequence of two, three
  or four bytes, \<^verbatim>\<open>string(r)\<close> of the rune it returns is that sequence.
\<close>

lemma encode_decoded2:
  assumes "0xC0 \<le> byte c0" "byte c0 < 0xE0" "contByte c1"
    and "r = (byte c0 mod 32) * 64 + byte c1 mod 64" and "0x7F < r"
  shows "encoderune r = [c0, c1]"
proof -
  define x where "x = byte c0 - 192"
  have a: "byte c0 = 192 + x" by (simp add: x_def)
  have xb: "0 \<le> x" "x < 32" using assms by (simp_all add: x_def)
  have m0: "byte c0 mod 32 = x" unfolding a using mod_shift [of x 32 6] xb by simp
  from assms(3) obtain y where b: "byte c1 = 128 + y" and yb: "0 \<le> y" "y < 64"
    and m1: "byte c1 mod 64 = y" by (rule contByte_split)
  have r: "r = x * 64 + y" using assms m0 m1 by simp
  have d: "r div 64 = x" "r mod 64 = y" unfolding r using yb by (rule divmod64)+
  have rb: "0 \<le> r" "r \<le> 0x7FF" unfolding r using xb yb by simp_all
  show ?thesis
    using assms(5) rb d by (simp add: encoderune_def a [symmetric] b [symmetric])
qed

lemma encode_decoded3:
  assumes "0xE0 \<le> byte c0" "byte c0 < 0xF0" "contByte c1" "contByte c2"
    and "r = (byte c0 mod 16) * 4096 + (byte c1 mod 64) * 64 + byte c2 mod 64"
    and "0x7FF < r" and "\<not> (0xD800 \<le> r \<and> r \<le> 0xDFFF)"
  shows "encoderune r = [c0, c1, c2]"
proof -
  define x where "x = byte c0 - 224"
  have a: "byte c0 = 224 + x" by (simp add: x_def)
  have xb: "0 \<le> x" "x < 16" using assms by (simp_all add: x_def)
  have m0: "byte c0 mod 16 = x" unfolding a using mod_shift [of x 16 14] xb by simp
  from assms(3) obtain y where b: "byte c1 = 128 + y" and yb: "0 \<le> y" "y < 64"
    and m1: "byte c1 mod 64 = y" by (rule contByte_split)
  from assms(4) obtain z where c: "byte c2 = 128 + z" and zb: "0 \<le> z" "z < 64"
    and m2: "byte c2 mod 64 = z" by (rule contByte_split)
  define q where "q = x * 64 + y"
  have r: "r = q * 64 + z" using assms(5) m0 m1 m2 by (simp add: q_def)
  have d1: "r div 64 = q" "r mod 64 = z" unfolding r using zb by (rule divmod64)+
  have d2: "q div 64 = x" "q mod 64 = y" unfolding q_def using yb by (rule divmod64)+
  have d3: "r div 4096 = x" by (simp only: div4096 d1 d2)
  have rb: "0 \<le> r" "r \<le> 0xFFFF" unfolding r q_def using xb yb zb by simp_all
  have e: "encoderune r = encode3 r"
    using assms(6,7) rb by (auto simp add: encoderune_def MaxRune_def)
  show ?thesis
    unfolding e encode3_def by (simp only: d1 d2 d3 a [symmetric] b [symmetric] c [symmetric] char_of_char)
qed

lemma encode_decoded4:
  assumes "0xF0 \<le> byte c0" "byte c0 < 0xF8" "contByte c1" "contByte c2" "contByte c3"
    and "r = (byte c0 mod 8) * 262144 + (byte c1 mod 64) * 4096
                       + (byte c2 mod 64) * 64 + byte c3 mod 64"
    and "0xFFFF < r" and "r \<le> MaxRune"
  shows "encoderune r = [c0, c1, c2, c3]"
proof -
  define x where "x = byte c0 - 240"
  have a: "byte c0 = 240 + x" by (simp add: x_def)
  have xb: "0 \<le> x" "x < 8" using assms by (simp_all add: x_def)
  have m0: "byte c0 mod 8 = x" unfolding a using mod_shift [of x 8 30] xb by simp
  from assms(3) obtain y where b: "byte c1 = 128 + y" and yb: "0 \<le> y" "y < 64"
    and m1: "byte c1 mod 64 = y" by (rule contByte_split)
  from assms(4) obtain z where c: "byte c2 = 128 + z" and zb: "0 \<le> z" "z < 64"
    and m2: "byte c2 mod 64 = z" by (rule contByte_split)
  from assms(5) obtain u where d: "byte c3 = 128 + u" and ub: "0 \<le> u" "u < 64"
    and m3: "byte c3 mod 64 = u" by (rule contByte_split)
  define p where "p = x * 64 + y"
  define q where "q = p * 64 + z"
  have r: "r = q * 64 + u" using assms(6) m0 m1 m2 m3 by (simp add: q_def p_def)
  have d1: "r div 64 = q" "r mod 64 = u" unfolding r using ub by (rule divmod64)+
  have d2: "q div 64 = p" "q mod 64 = z" unfolding q_def using zb by (rule divmod64)+
  have d3: "p div 64 = x" "p mod 64 = y" unfolding p_def using yb by (rule divmod64)+
  have d4: "r div 4096 = q div 64" by (simp only: div4096 d1)
  have d5: "r div 262144 = x" by (simp only: div262144 d1 d2 d3)
  have e: "encoderune r = encode4 r"
    using assms(7,8) by (simp add: encoderune_def MaxRune_def)
  show ?thesis
    unfolding e encode4_def
    by (simp only: d1 d2 d3 d4 d5 a [symmetric] b [symmetric] c [symmetric] d [symmetric] char_of_char)
qed



lemma decoderune_cases:
  assumes "decoderune (c # cs) = (r, w)" and "\<not> (r = RuneError \<and> w = 1)"
  shows "(byte c < 0x80 \<and> r = byte c \<and> w = 1)
    \<or> (0xC0 \<le> byte c \<and> byte c < 0xE0 \<and> w = 2 \<and> 0x7F < r \<and>
        (\<exists>c1 cs'. cs = c1 # cs' \<and> contByte c1 \<and> r = (byte c mod 32) * 64 + byte c1 mod 64))
    \<or> (0xE0 \<le> byte c \<and> byte c < 0xF0 \<and> w = 3 \<and> 0x7FF < r \<and> \<not> (0xD800 \<le> r \<and> r \<le> 0xDFFF) \<and>
        (\<exists>c1 c2 cs'. cs = c1 # c2 # cs' \<and> contByte c1 \<and> contByte c2 \<and>
           r = (byte c mod 16) * 4096 + (byte c1 mod 64) * 64 + byte c2 mod 64))
    \<or> (0xF0 \<le> byte c \<and> byte c < 0xF8 \<and> w = 4 \<and> 0xFFFF < r \<and> r \<le> MaxRune \<and>
        (\<exists>c1 c2 c3 cs'. cs = c1 # c2 # c3 # cs' \<and> contByte c1 \<and> contByte c2 \<and> contByte c3 \<and>
           r = (byte c mod 8) * 262144 + (byte c1 mod 64) * 4096
                       + (byte c2 mod 64) * 64 + byte c3 mod 64))"
  using assms
  by (simp split: if_splits list.splits add: Let_def decoderune.simps)




section \<open>Lemmas on Replace and on the loop over the non-printable characters\<close>

lemma Replace_zero: "Replace s old new 0 = s"
  by (cases s) simp_all

lemma Replace_skip:
  "old \<noteq> [] \<Longrightarrow> hd old \<notin> set pre \<Longrightarrow> n \<noteq> 0 \<Longrightarrow>
     Replace (pre @ rest) old new n = pre @ Replace rest old new n"
proof (induction pre)
  case Nil
  then show ?case by simp
next
  case (Cons c pre)
  from Cons.prems obtain x xs where old: "old = x # xs" and "x \<noteq> c" and "x \<notin> set pre"
    by (cases old) auto
  then have "\<not> prefix old (c # pre @ rest)" by auto
  with Cons show ?case by simp
qed

lemma Replace_here: "old \<noteq> [] \<Longrightarrow> Replace (old @ rest) old new 1 = new @ rest"
  by (cases old) (simp_all add: Replace_zero)

lemma encoderune_ascii: "byte c < 0x80 \<Longrightarrow> encoderune (byte c) = [c]"
  using byte_bounds [of c] by (simp add: encoderune_def)

lemma decode_encode:
  assumes "decoderune (c # cs) = (r, w)" and "\<not> (r = RuneError \<and> w = 1)"
  shows "c # cs = encoderune r @ drop (w - 1) cs"
  using decoderune_cases [OF assms]
proof (elim disjE conjE exE)
  assume "byte c < 0x80" "r = byte c" "w = 1"
  then show ?thesis by (simp add: encoderune_ascii)
next
  fix c1 cs'
  assume "0xC0 \<le> byte c" "byte c < 0xE0" "w = 2" "0x7F < r" "cs = c1 # cs'" "contByte c1"
    "r = (byte c mod 32) * 64 + byte c1 mod 64"
  then show ?thesis using encode_decoded2 [of c c1 r] by simp
next
  fix c1 c2 cs'
  assume "0xE0 \<le> byte c" "byte c < 0xF0" "w = 3" "0x7FF < r" "\<not> (0xD800 \<le> r \<and> r \<le> 0xDFFF)"
    "cs = c1 # c2 # cs'" "contByte c1" "contByte c2"
    "r = (byte c mod 16) * 4096 + (byte c1 mod 64) * 64 + byte c2 mod 64"
  then show ?thesis using encode_decoded3 [of c c1 c2 r] by simp
next
  fix c1 c2 c3 cs'
  assume "0xF0 \<le> byte c" "byte c < 0xF8" "w = 4" "0xFFFF < r" "r \<le> MaxRune"
    "cs = c1 # c2 # c3 # cs'" "contByte c1" "contByte c2" "contByte c3"
    "r = (byte c mod 8) * 262144 + (byte c1 mod 64) * 4096 + (byte c2 mod 64) * 64 + byte c3 mod 64"
  then show ?thesis using encode_decoded4 [of c c1 c2 c3 r] by simp
qed

lemma decoderune_ascii_iff:
  assumes "decoderune (c # cs) = (r, w)"
  shows "byte c < 0x80 \<Longrightarrow> r = byte c \<and> w = 1"
    and "r \<le> 126 \<Longrightarrow> byte c < 0x80"
  using assms by (auto split: if_splits list.splits simp: Let_def RuneError_def decoderune.simps)



text \<open>
  The loop on a well-formed string.  When the loop has come to the rest \<open>s\<close> of the string
  it ranges over, the claim is \<open>pre @ s\<close>, where \<open>pre\<close> is what the loop has made of the
  bytes before: printable bytes only.  The first byte of \<^verbatim>\<open>string(r)\<close> of a rune outside 33
  to 126 is not printable, so the first occurrence of \<^verbatim>\<open>string(r)\<close> in the claim is the one
  at the head of \<open>s\<close>.
\<close>

lemma replaceNonPrintable_valid:
  "ValidString s \<Longrightarrow> list_all printable pre \<Longrightarrow>
     replaceNonPrintable s (pre @ s) = pre @ replaceNonPrintableRunes s"
proof (induction "length s" arbitrary: s pre rule: less_induct)
  case less
  show ?case
  proof (cases s)
    case Nil
    then show ?thesis by (simp add: replaceNonPrintableRunes_def)
  next
    case (Cons c cs)
    obtain r w where dec: "decoderune (c # cs) = (r, w)" by (cases "decoderune (c # cs)")
    define rest where "rest = drop (w - 1) cs"
    from less.prems(1) have ok: "\<not> (r = RuneError \<and> w = 1)" and vrest: "ValidString rest"
      by (simp_all add: Cons dec rest_def)
    have split: "c # cs = encoderune r @ rest"
      unfolding rest_def using dec ok by (rule decode_encode)
    have len: "length rest < length s" by (simp add: Cons rest_def)
    have sp: "replaceNonPrintableRunes s =
                (if r < 33 \<or> r > 126 then ''-'' else encoderune r) @ replaceNonPrintableRunes rest"
      by (simp add: replaceNonPrintableRunes_def Cons dec rest_def)
    have step: "replaceNonPrintable s claim =
                  replaceNonPrintable rest
                    (if r < 33 \<or> r > 126 then Replace claim (encoderune r) ''-'' 1 else claim)"
      for claim
      by (simp add: Cons dec rest_def)
    show ?thesis
    proof (cases "r < 33 \<or> r > 126")
      case True
      have ne: "encoderune r \<noteq> []"
        by (simp add: encoderune_def encode3_def encode4_def)
      with split have hd: "hd (encoderune r) = c" by (cases "encoderune r") simp_all
      have "\<not> printable c"
        using decoderune_ascii_iff(1) [OF dec] True by (auto simp: printable_def)
      with less.prems(2) have notin: "hd (encoderune r) \<notin> set pre"
        by (auto simp: hd list_all_iff)
      have "Replace (pre @ s) (encoderune r) ''-'' 1 = pre @ Replace (encoderune r @ rest) (encoderune r) ''-'' 1"
        unfolding Cons split using ne notin by (intro Replace_skip) simp_all
      also have "\<dots> = (pre @ ''-'') @ rest"
        using ne by (simp add: Replace_here)
      finally have "replaceNonPrintable s (pre @ s) = replaceNonPrintable rest ((pre @ ''-'') @ rest)"
        using True step [of "pre @ s"] by simp
      also have "\<dots> = (pre @ ''-'') @ replaceNonPrintableRunes rest"
        using len vrest less.prems(2) by (intro less.hyps) (simp_all add: printable_def)
      finally show ?thesis using True by (simp add: sp)
    next
      case False
      then have "r \<le> 126" by simp
      from decoderune_ascii_iff(2) [OF dec this] have lo: "byte c < 0x80" .
      from decoderune_ascii_iff(1) [OF dec lo] have rw: "r = byte c" "w = 1" by simp_all
      have restcs: "rest = cs" by (simp add: rest_def rw)
      have enc: "encoderune r = [c]" using lo by (simp add: rw encoderune_ascii)
      have pc: "printable c" using False by (simp add: printable_def rw)
      have "replaceNonPrintable s (pre @ s) = replaceNonPrintable cs ((pre @ [c]) @ cs)"
        using False step [of "pre @ s"] by (simp add: restcs Cons)
      also have "\<dots> = (pre @ [c]) @ replaceNonPrintableRunes cs"
        using len vrest less.prems(2) pc unfolding restcs by (intro less.hyps) simp_all
      finally show ?thesis using False by (simp add: sp enc restcs)
    qed
  qed
qed

section \<open>Lemmas on cleanClaimsHeaders\<close>

lemma cleanedHeadersLoop_eq:
  "cleanedHeadersLoop Cfg claims m =
     Inr (\<lambda>c. if c \<in> set claims then Some (fst (claimToHeader Cfg c)) else m c)"
proof (induction claims arbitrary: m)
  case Nil
  then show ?case by simp
next
  case (Cons claim claims)
  have "snd (claimToHeader Cfg claim) = None"
    by (simp add: claimToHeader_def Let_def)
  then obtain h where h: "claimToHeader Cfg claim = (h, None)"
    by (cases "claimToHeader Cfg claim") simp
  show ?case
    by (simp add: h Cons.IH fun_eq_iff)
qed

section \<open>Lemmas on the sanitizer\<close>

text \<open>Facts about single bytes, checked on every byte.\<close>

lemma char_facts:
  "\<forall>c. cleanByte c \<longrightarrow> validHeaderFieldByte c"
  "\<forall>c. cleanByte c \<longrightarrow> (cleanByte (canonByte True c) \<and> cleanByte (canonByte False c))"
  "\<forall>c. cleanByte c = headerBodyByte c"
  "\<forall>c. c \<in> set disallowed \<longrightarrow> byte c < 0x80"
  by code_simp+

lemma hyphen_facts: "CHR ''-'' \<notin> set disallowed" "cleanByte CHR ''-''" "CHR '':'' \<in> set disallowed"
  by code_simp+

lemma runes_disallowed: "map encoderune (runes disallowed) = map (\<lambda>c. [c]) disallowed"
  by code_simp

text \<open>
  Lines 381 to 383 as one pass: every disallowed byte becomes a hyphen, every other byte
  stays.
\<close>

lemma Replace_single:
  "n < 0 \<Longrightarrow> Replace s [d] [e] n = map (\<lambda>c. if c = d then e else c) s"
  by (induction s arbitrary: n) auto

lemma foldl_ReplaceAll:
  "e \<notin> set ds \<Longrightarrow>
     foldl (\<lambda>claim c. ReplaceAll claim [c] [e]) s ds = map (\<lambda>x. if x \<in> set ds then e else x) s"
proof (induction ds arbitrary: s)
  case Nil
  then show ?case by simp
next
  case (Cons d ds)
  then show ?case by (auto simp: ReplaceAll_def Replace_single)
qed

lemma replaceDisallowed_map:
  "replaceDisallowed s = map (\<lambda>c. if c \<in> set disallowed then CHR ''-'' else c) s"
proof -
  have "replaceDisallowed s =
          foldl (\<lambda>claim old. ReplaceAll claim old ''-'') s (map encoderune (runes disallowed))"
    by (simp add: replaceDisallowed_def foldl_map)
  also have "\<dots> = foldl (\<lambda>claim c. ReplaceAll claim [c] ''-'') s disallowed"
    by (simp only: runes_disallowed foldl_map)
  also have "\<dots> = map (\<lambda>c. if c \<in> set disallowed then CHR ''-'' else c) s"
    using hyphen_facts(1) by (rule foldl_ReplaceAll)
  finally show ?thesis .
qed

text \<open>A string of clean bytes goes through the sanitizer unchanged.\<close>

lemma replaceNonPrintable_printable:
  "list_all printable s \<Longrightarrow> replaceNonPrintable s claim = claim"
proof (induction s arbitrary: claim)
  case Nil
  then show ?case by simp
next
  case (Cons c cs)
  then have "byte c < 0x80" and p: "33 \<le> byte c" "byte c \<le> 126" by (simp_all add: printable_def)
  then have "decoderune (c # cs) = (byte c, 1)" by (simp add: decoderune.simps)
  with Cons p show ?case by simp
qed

lemma canonicalize_length: "length (canonicalize u s) = length s"
  by (induction s arbitrary: u) (simp_all add: Let_def)

lemma canonicalize_clean: "list_all cleanByte s \<Longrightarrow> list_all cleanByte (canonicalize u s)"
proof (induction s arbitrary: u)
  case Nil
  then show ?case by simp
next
  case (Cons c cs)
  then have "cleanByte (canonByte u c)" using char_facts(2) by (cases u) auto
  with Cons show ?case by (simp add: Let_def)
qed

lemma CanonicalHeaderKey_clean:
  "list_all cleanByte s \<Longrightarrow>
     list_all cleanByte (CanonicalHeaderKey s) \<and> length (CanonicalHeaderKey s) = length s"
  by (simp add: CanonicalHeaderKey_def canonicalize_length canonicalize_clean)

lemma TrimPrefix_clean:
  assumes "list_all cleanByte s" and "CHR '':'' \<in> set pre"
  shows "TrimPrefix s pre = s"
proof -
  have "\<not> prefix pre s"
  proof
    assume "prefix pre s"
    then have "set pre \<subseteq> set s" by (rule set_mono_prefix)
    with assms(2) have "CHR '':'' \<in> set s" by auto
    with assms(1) have "cleanByte CHR '':''" by (auto simp: list_all_iff)
    with hyphen_facts(3) show False by (simp add: cleanByte_def)
  qed
  then show ?thesis by (simp add: TrimPrefix_def HasPrefix_def)
qed

lemma replaceDisallowed_clean: "list_all cleanByte s \<Longrightarrow> replaceDisallowed s = s"
  unfolding replaceDisallowed_map
  by (rule map_idI) (auto simp: list_all_iff cleanByte_def)

lemma sanitizeClaim_clean:
  assumes "list_all cleanByte s"
  shows "sanitizeClaim s = s"
proof -
  have p: "list_all printable s" using assms by (auto simp: list_all_iff cleanByte_def)
  show ?thesis
    using assms p
    by (simp add: sanitizeClaim_def TrimPrefix_clean replaceDisallowed_clean
        replaceNonPrintable_printable)
qed

text \<open>
  Well-formed UTF-8 stays well-formed when an ASCII prefix is cut off and when ASCII bytes
  are exchanged for ASCII bytes.
\<close>

lemma ValidString_drop_ascii:
  "list_all (\<lambda>c. byte c < 0x80) pre \<Longrightarrow> ValidString (pre @ s) \<Longrightarrow> ValidString s"
  by (induction pre) (simp_all add: decoderune.simps)

lemma ValidString_TrimPrefix:
  assumes "list_all (\<lambda>c. byte c < 0x80) pre" and "ValidString s"
  shows "ValidString (TrimPrefix s pre)"
proof (cases "prefix pre s")
  case True
  then obtain t where t: "s = pre @ t" by (auto simp: prefix_def)
  with assms have "ValidString t" by (auto intro: ValidString_drop_ascii)
  with True t show ?thesis by (simp add: TrimPrefix_def HasPrefix_def)
next
  case False
  with assms(2) show ?thesis by (simp add: TrimPrefix_def HasPrefix_def)
qed

lemma decoderune_shape:
  assumes "decoderune (c # cs) = (r, w)" and "\<not> (r = RuneError \<and> w = 1)"
  shows "(w = 1 \<and> byte c < 0x80 \<and> r = byte c)
       \<or> (0x80 \<le> byte c \<and> w - 1 \<le> length cs \<and> list_all contByte (take (w - 1) cs)
          \<and> (\<forall>t. decoderune (c # take (w - 1) cs @ t) = (r, w)))"
  using decoderune_cases [OF assms]
proof (elim disjE conjE exE)
  assume "byte c < 0x80" "r = byte c" "w = 1"
  then show ?thesis by simp
next
  fix c1 cs'
  assume "0xC0 \<le> byte c" "byte c < 0xE0" "w = 2" "0x7F < r" "cs = c1 # cs'" "contByte c1"
    "r = (byte c mod 32) * 64 + byte c1 mod 64"
  then show ?thesis by (simp add: decoderune.simps)
next
  fix c1 c2 cs'
  assume "0xE0 \<le> byte c" "byte c < 0xF0" "w = 3" "0x7FF < r" "\<not> (0xD800 \<le> r \<and> r \<le> 0xDFFF)"
    "cs = c1 # c2 # cs'" "contByte c1" "contByte c2"
    "r = (byte c mod 16) * 4096 + (byte c1 mod 64) * 64 + byte c2 mod 64"
  then show ?thesis by (simp add: decoderune.simps numeral_3_eq_3)
next
  fix c1 c2 c3 cs'
  assume "0xF0 \<le> byte c" "byte c < 0xF8" "w = 4" "0xFFFF < r" "r \<le> MaxRune"
    "cs = c1 # c2 # c3 # cs'" "contByte c1" "contByte c2" "contByte c3"
    "r = (byte c mod 8) * 262144 + (byte c1 mod 64) * 4096 + (byte c2 mod 64) * 64 + byte c3 mod 64"
  then show ?thesis by (simp add: decoderune.simps numeral_eq_Suc)
qed

lemma ValidString_map:
  assumes hi: "\<And>c. 0x80 \<le> byte c \<Longrightarrow> f c = c"
    and lo: "\<And>c. byte c < 0x80 \<Longrightarrow> byte (f c) < 0x80"
  shows "ValidString s \<Longrightarrow> ValidString (map f s)"
proof (induction "length s" arbitrary: s rule: less_induct)
  case less
  show ?case
  proof (cases s)
    case Nil
    then show ?thesis by simp
  next
    case (Cons c cs)
    obtain r w where dec: "decoderune (c # cs) = (r, w)" by (cases "decoderune (c # cs)")
    define rest where "rest = drop (w - 1) cs"
    from less.prems have ok: "\<not> (r = RuneError \<and> w = 1)" and vrest: "ValidString rest"
      by (simp_all add: Cons dec rest_def)
    have "length rest < length s" by (simp add: Cons rest_def)
    with vrest have IH: "ValidString (map f rest)" by (intro less.hyps)
    from decoderune_shape [OF dec ok] show ?thesis
    proof (elim disjE conjE)
      assume w: "w = 1" and a: "byte c < 0x80"
      have "decoderune (f c # map f cs) = (byte (f c), 1)"
        using lo [OF a] by (simp add: decoderune.simps)
      moreover have "byte (f c) \<noteq> RuneError" using lo [OF a] by (simp add: RuneError_def)
      ultimately show ?thesis using IH by (simp add: Cons rest_def w)
    next
      assume a: "0x80 \<le> byte c" and len: "w - 1 \<le> length cs"
        and cont: "list_all contByte (take (w - 1) cs)"
        and d: "\<forall>t. decoderune (c # take (w - 1) cs @ t) = (r, w)"
      have "map f (take (w - 1) cs) = take (w - 1) cs"
        using cont by (intro map_idI hi) (auto simp: list_all_iff contByte_def)
      then have "map f cs = take (w - 1) cs @ map f rest"
        unfolding rest_def by (metis append_take_drop_id map_append)
      then have m: "map f s = c # take (w - 1) cs @ map f rest"
        by (simp add: Cons hi [OF a])
      have dr: "drop (w - 1) (take (w - 1) cs @ map f rest) = map f rest"
        using len by simp
      show ?thesis
        unfolding m using d ok IH dr by (simp del: drop_append)
    qed
  qed
qed

lemma ValidString_replaceDisallowed: "ValidString s \<Longrightarrow> ValidString (replaceDisallowed s)"
  unfolding replaceDisallowed_map
proof (rule ValidString_map)
  fix c :: char
  assume "0x80 \<le> byte c"
  with char_facts(4) have "c \<notin> set disallowed" by fastforce
  then show "(if c \<in> set disallowed then CHR ''-'' else c) = c" by simp
next
  fix c :: char
  assume "byte c < 0x80"
  then show "byte (if c \<in> set disallowed then CHR ''-'' else c) < 0x80" by simp
qed

text \<open>After the sanitizer, a well-formed claim holds clean bytes only.\<close>

lemma set_replaceNonPrintableRunes:
  "set (replaceNonPrintableRunes s) \<subseteq> insert CHR ''-'' {c \<in> set s. printable c}"
proof (induction "length s" arbitrary: s rule: less_induct)
  case less
  show ?case
  proof (cases s)
    case Nil
    then show ?thesis by (simp add: replaceNonPrintableRunes_def)
  next
    case (Cons c cs)
    obtain r w where dec: "decoderune (c # cs) = (r, w)" by (cases "decoderune (c # cs)")
    define rest where "rest = drop (w - 1) cs"
    have sp: "replaceNonPrintableRunes s =
                (if r < 33 \<or> r > 126 then ''-'' else encoderune r) @ replaceNonPrintableRunes rest"
      by (simp add: replaceNonPrintableRunes_def Cons dec rest_def)
    have "length rest < length s" by (simp add: Cons rest_def)
    then have "set (replaceNonPrintableRunes rest) \<subseteq> insert CHR ''-'' {c \<in> set rest. printable c}"
      by (rule less.hyps)
    moreover have "set rest \<subseteq> set cs" unfolding rest_def by (rule set_drop_subset)
    ultimately have IH: "set (replaceNonPrintableRunes rest) \<subseteq> insert CHR ''-'' {c \<in> set s. printable c}"
      by (auto simp: Cons)
    show ?thesis
    proof (cases "r < 33 \<or> r > 126")
      case True
      with IH show ?thesis by (simp add: sp)
    next
      case False
      then have "r \<le> 126" by simp
      from decoderune_ascii_iff(2) [OF dec this] have lo: "byte c < 0x80" .
      from decoderune_ascii_iff(1) [OF dec lo] have rw: "r = byte c" by simp
      have enc: "encoderune r = [c]" using lo by (simp add: rw encoderune_ascii)
      have "printable c" using False by (simp add: printable_def rw)
      with IH False show ?thesis unfolding sp by (simp add: enc Cons)
    qed
  qed
qed

lemma sanitizeClaim_valid_clean:
  assumes "ValidString claim"
  shows "list_all cleanByte (sanitizeClaim claim)"
proof -
  define s1 where "s1 = TrimPrefix (TrimPrefix claim ''http://'') ''https://''"
  define s2 where "s2 = replaceDisallowed s1"
  have "ValidString s1"
    unfolding s1_def using assms by (intro ValidString_TrimPrefix) simp_all
  then have v2: "ValidString s2" unfolding s2_def by (rule ValidString_replaceDisallowed)
  have nd: "\<forall>c\<in>set s2. c \<notin> set disallowed"
    unfolding s2_def replaceDisallowed_map using hyphen_facts(1) by auto
  have "sanitizeClaim claim = replaceNonPrintable s2 s2"
    by (simp add: sanitizeClaim_def s1_def s2_def Let_def)
  also have "\<dots> = replaceNonPrintableRunes s2"
    using replaceNonPrintable_valid [OF v2, of "[]"] by simp
  finally have e: "sanitizeClaim claim = replaceNonPrintableRunes s2" .
  show ?thesis
    unfolding e list_all_iff
  proof
    fix c assume "c \<in> set (replaceNonPrintableRunes s2)"
    with set_replaceNonPrintableRunes [of s2]
    have "c = CHR ''-'' \<or> (c \<in> set s2 \<and> printable c)" by auto
    with nd hyphen_facts(2) show "cleanByte c" by (auto simp: cleanByte_def)
  qed
qed

section \<open>Lemmas on the decoder\<close>

text \<open>
  An integer of the document up to \<open>2^63 - 1\<close> is stored as it is; the integer \<open>2^63\<close>,
  which the parser reads as \<^verbatim>\<open>uint64\<close>, is stored as \<open>- 2^63\<close>.
\<close>

lemma decodeInt_int64: "decodeInt (Some 240) field = 240 \<and> decodeInt None field = field"
  by (simp add: decodeInt_def)

lemma decodeInt_uint64: "decodeInt (Some 9223372036854775808) field = - 9223372036854775808"
  by (simp add: decodeInt_def)

section \<open>The claims\<close>

text \<open>
  C1, as the code has it.  For a claim that is well-formed UTF-8, the header is the
  configured prefix followed by bytes that are letters, digits, hyphens or one of the
  token characters \<^verbatim>\<open>!#$%&'*+^`|~\<close>, which the source leaves in place.
\<close>

theorem claimToHeader_body_bytes:
  "ValidString claim \<Longrightarrow>
     \<exists>body. fst (claimToHeader Cfg claim) = Headers_ClaimHeader (Headers Cfg) @ body
            \<and> list_all headerBodyByte body"
proof -
  assume "ValidString claim"
  then have "list_all cleanByte (sanitizeClaim claim)" by (rule sanitizeClaim_valid_clean)
  then have "list_all cleanByte (CanonicalHeaderKey (sanitizeClaim claim))"
    using CanonicalHeaderKey_clean by blast
  then have "list_all headerBodyByte (CanonicalHeaderKey (sanitizeClaim claim))"
    using char_facts(3) by (simp add: list_all_iff)
  then show ?thesis by (simp add: claimToHeader_def Let_def)
qed

text \<open>An instance: a claim namespaced as a URL.\<close>

theorem claimToHeader_body_bytes_witness:
  "fst (claimToHeader (withClaimHeader ''X-Vouch-IdP-Claims-'' zeroConfig) ''https://example.com/roles'')
     = ''X-Vouch-IdP-Claims-'' @ ''Example-Com-Roles''
   \<and> list_all headerBodyByte ''Example-Com-Roles''"
proof -
  have v: "ValidString ''https://example.com/roles''" by code_simp
  have p: "Headers_ClaimHeader (Headers (withClaimHeader ''X-Vouch-IdP-Claims-'' zeroConfig)) = ''X-Vouch-IdP-Claims-''"
    by (simp add: withClaimHeader_def)
  have e: "fst (claimToHeader (withClaimHeader ''X-Vouch-IdP-Claims-'' zeroConfig) ''https://example.com/roles'')
     = ''X-Vouch-IdP-Claims-'' @ ''Example-Com-Roles''"
    by code_simp
  from claimToHeader_body_bytes [OF v, of "withClaimHeader ''X-Vouch-IdP-Claims-'' zeroConfig"]
  obtain body where
    "fst (claimToHeader (withClaimHeader ''X-Vouch-IdP-Claims-'' zeroConfig) ''https://example.com/roles'')
       = ''X-Vouch-IdP-Claims-'' @ body" and b: "list_all headerBodyByte body"
    unfolding p by blast
  with e have "body = ''Example-Com-Roles''" by (simp only: same_append_eq)
  with b e show ?thesis by simp
qed

text \<open>
  C1 with letters, digits and hyphens only does not hold: the exclamation mark of the
  claim \<^verbatim>\<open>a!b\<close> is in the header, and so is the byte \<^verbatim>\<open>0xFF\<close> of a claim that is not
  well-formed UTF-8.
\<close>

theorem claimToHeader_keeps_punctuation:
  "fst (claimToHeader (withClaimHeader ''X-Vouch-IdP-Claims-'' zeroConfig) ''a!b'')
     = ''X-Vouch-IdP-Claims-'' @ ''A!b''
   \<and> \<not> letterDigitHyphen CHR ''!''
   \<and> fst (claimToHeader (withClaimHeader ''X-Vouch-IdP-Claims-'' zeroConfig) [CHR 0xFF])
     = ''X-Vouch-IdP-Claims-'' @ [CHR 0xFF]
   \<and> \<not> letterDigitHyphen (CHR 0xFF)"
  by code_simp

text \<open>
  C2, evaluated on the documents of the claim.  The primary document sets only
  \<^verbatim>\<open>cookie.name\<close> (to \<^verbatim>\<open>MyCookie\<close>); \<^verbatim>\<open>parseConfig\<close> leaves that name in \<^verbatim>\<open>Cfg\<close>.  The
  defaults document sets \<^verbatim>\<open>cookie.name\<close> (to \<^verbatim>\<open>VouchCookie\<close>) and \<^verbatim>\<open>cookie.maxage\<close> (to
  240).  After \<^verbatim>\<open>setDefaults\<close> the cookie's maximal age is the one of the defaults
  document, and so is the cookie's name: the value of the primary document is
  overwritten, since the decoder writes every field whose key the defaults document
  defines.
\<close>

theorem setDefaults_overwrites_primary:
  "parseConfig (UnmarshalKey primaryExample) exampleInputs zeroConfig =
     Inr (zeroConfig\<lparr>Cookie := (Cookie zeroConfig)\<lparr>Cookie_Name := ''MyCookie''\<rparr>\<rparr>, [])
   \<and> fst (setDefaults (UnmarshalKey defaultsExample) False
           (zeroConfig\<lparr>Cookie := (Cookie zeroConfig)\<lparr>Cookie_Name := ''MyCookie''\<rparr>\<rparr>)) =
     zeroConfig\<lparr>Cookie := (Cookie zeroConfig)\<lparr>Cookie_Name := ''VouchCookie'', Cookie_MaxAge := 240\<rparr>\<rparr>"
  by (simp add: parseConfig_def setDefaults_def UnmarshalKey_def primaryExample_def
      defaultsExample_def exampleInputs_def LCName_def OldLCName_def emptySection_def
      emptyCookie_def decodeConfig_def decodeCookie_def decodeField_def decodeInt_def decodeSlice_def
      zeroConfig_def logError_def Let_def)

text \<open>
  The two halves of the decoder's contract, on the cookie's name: \<^verbatim>\<open>setDefaults\<close> keeps the
  name when the defaults document does not define it, and writes the defaults document's
  name when it defines one, whatever the primary stage left there.
\<close>

lemma setDefaults_keeps_undefined:
  assumes "defaults LCName = Some d" and "doc_cookie d = Some k" and "cookie_name k = None"
  shows "Cookie_Name (Cookie (fst (setDefaults (UnmarshalKey defaults) hc Cfg))) =
           Cookie_Name (Cookie Cfg)"
  using assms
  by (simp add: setDefaults_def UnmarshalKey_def decodeConfig_def decodeCookie_def
      decodeField_def)

lemma setDefaults_writes_defined:
  assumes "defaults LCName = Some d" and "doc_cookie d = Some k" and "cookie_name k = Some n"
  shows "Cookie_Name (Cookie (fst (setDefaults (UnmarshalKey defaults) hc Cfg))) = n"
  using assms
  by (simp add: setDefaults_def UnmarshalKey_def decodeConfig_def decodeCookie_def
      decodeField_def)

text \<open>
  C3, as the code has it.  The map \<^verbatim>\<open>ClaimsCleaned\<close> is keyed by the raw claim: after
  \<^verbatim>\<open>cleanClaimsHeaders\<close> it holds exactly the raw claims of the claim list, each with the
  header that \<^verbatim>\<open>claimToHeader\<close> computes for that claim alone, and no error is returned.
  An entry is overwritten only when the same raw claim stands in the list again, and
  then by the same header.
\<close>

theorem cleanClaimsHeaders_map:
  "cleanClaimsHeaders Cfg =
     (Cfg\<lparr>Headers := (Headers Cfg)\<lparr>Headers_ClaimsCleaned :=
        (\<lambda>claim. if claim \<in> set (Headers_Claims (Headers Cfg))
                  then Some (fst (claimToHeader Cfg claim)) else None)\<rparr>\<rparr>, None)"
  by (simp add: cleanClaimsHeaders_def cleanedHeadersLoop_eq)

text \<open>An instance: the claim list of the specification's example.\<close>

theorem cleanClaimsHeaders_map_witness:
  "dom (Headers_ClaimsCleaned (Headers (fst (cleanClaimsHeaders
      (withClaims [''https://example.com/roles'', ''roles''] zeroConfig))))) =
     {''https://example.com/roles'', ''roles''}"
  using cleanClaimsHeaders_map
          [of "withClaims [''https://example.com/roles'', ''roles''] zeroConfig"]
  by (auto simp: withClaims_def dom_def)

text \<open>
  C3 with an overwritten entry does not hold: the raw claims \<^verbatim>\<open>a.b\<close> and \<^verbatim>\<open>a_b\<close>
  normalize to the same header
  \<^verbatim>\<open>X-A-B\<close>, and the map holds an entry for each of them.  The entry of the first claim
  is not overwritten by the last one.
\<close>

theorem cleanClaimsHeaders_same_header_two_entries:
  "Headers_ClaimsCleaned (Headers (fst (cleanClaimsHeaders
      (withClaims [''a.b'', ''a_b''] (withClaimHeader ''X-'' zeroConfig))))) ''a.b'' = Some ''X-A-B''
   \<and> Headers_ClaimsCleaned (Headers (fst (cleanClaimsHeaders
      (withClaims [''a.b'', ''a_b''] (withClaimHeader ''X-'' zeroConfig))))) ''a_b'' = Some ''X-A-B''"
  by code_simp

text \<open>
  C4.  When the document was read, the key \<^verbatim>\<open>vouch\<close> decodes to a configuration with an
  empty domain list and the key \<^verbatim>\<open>lasso\<close> decodes (into a fresh \<^verbatim>\<open>Config\<close>) to one with a
  non-empty domain list, then \<^verbatim>\<open>parseConfig\<close> leaves in \<^verbatim>\<open>Cfg\<close> the configuration decoded
  from \<^verbatim>\<open>lasso\<close>, whole, and the last log entry is the migration message, which names
  both keys.  This holds for every decoder.  (The message is logged with
  \<^verbatim>\<open>log.Errorf\<close>.)
\<close>

theorem parseConfig_legacy_replaces:
  assumes "ReadInConfig_err inp = None"
    and "unmarshalKey LCName Cfg = (primary, err1)"
    and "length (Domains primary) = 0"
    and "unmarshalKey OldLCName zeroConfig = (legacy, err2)"
    and "length (Domains legacy) \<noteq> 0"
  shows "\<exists>logs. parseConfig unmarshalKey inp Cfg = Inr (legacy, logs)
           \<and> last logs = Log ErrorLevel migrationMessage None
           \<and> sublist (OldLCName @ '':'') migrationMessage
           \<and> sublist (LCName @ '':'') migrationMessage"
proof -
  have 1: "sublist (OldLCName @ '':'') migrationMessage" by code_simp
  have 2: "sublist (LCName @ '':'') migrationMessage" by code_simp
  show ?thesis
    using assms 1 2 by (simp add: parseConfig_def Let_def)
qed

text \<open>
  An instance of C4: the section \<^verbatim>\<open>vouch\<close> sets the port and the cookie's name, the
  section \<^verbatim>\<open>lasso\<close> sets only the domains.  Neither the port nor the cookie's name of the
  primary section is in the result.
\<close>

theorem parseConfig_legacy_replaces_witness:
  "\<exists>logs. parseConfig (UnmarshalKey legacyExample) exampleInputs zeroConfig =
      Inr (zeroConfig\<lparr>Domains := [''example.com'']\<rparr>, logs)
      \<and> last logs = Log ErrorLevel migrationMessage None"
proof -
  have a: "ReadInConfig_err exampleInputs = None" by (simp add: exampleInputs_def)
  have b: "UnmarshalKey legacyExample LCName zeroConfig =
             (zeroConfig\<lparr>Port := 9090, Cookie := (Cookie zeroConfig)\<lparr>Cookie_Name := ''MyCookie''\<rparr>\<rparr>, None)"
    by (simp add: UnmarshalKey_def legacyExample_def LCName_def emptySection_def emptyCookie_def
        decodeConfig_def decodeCookie_def decodeField_def decodeInt_def decodeSlice_def zeroConfig_def)
  have c: "length (Domains (zeroConfig\<lparr>Port := 9090, Cookie := (Cookie zeroConfig)\<lparr>Cookie_Name := ''MyCookie''\<rparr>\<rparr>)) = 0"
    by (simp add: zeroConfig_def)
  have d: "UnmarshalKey legacyExample OldLCName zeroConfig = (zeroConfig\<lparr>Domains := [''example.com'']\<rparr>, None)"
    by (simp add: UnmarshalKey_def legacyExample_def OldLCName_def emptySection_def
        decodeConfig_def decodeField_def decodeInt_def decodeSlice_def zeroConfig_def)
  have e: "length (Domains (zeroConfig\<lparr>Domains := [''example.com'']\<rparr>)) \<noteq> 0"
    by simp
  from parseConfig_legacy_replaces
         [where unmarshalKey = "UnmarshalKey legacyExample" and inp = exampleInputs
            and Cfg = zeroConfig, OF a b c d e]
  show ?thesis by blast
qed

text \<open>
  C5, evaluated on a document that has only the legacy section \<^verbatim>\<open>lasso\<close>, with the domain
  list \<^verbatim>\<open>[example.com]\<close>, and the two required options of the section \<^verbatim>\<open>oauth\<close>.
  \<^verbatim>\<open>parseConfig\<close> adopts the legacy configuration, so the domain allow-list of \<^verbatim>\<open>Cfg\<close> is
  set to \<^verbatim>\<open>[example.com]\<close>; \<^verbatim>\<open>basicTest\<close>, with viper still holding that document, finds
  neither \<^verbatim>\<open>vouch.allowAllUsers\<close> nor \<^verbatim>\<open>vouch.domains\<close> and returns the error of line 319.
\<close>

theorem basicTest_rejects_migrated_domains:
  "parseConfig (UnmarshalKey legacyOnlyExample) exampleInputs zeroConfig =
     Inr (zeroConfig\<lparr>Domains := [''example.com'']\<rparr>, [Log ErrorLevel migrationMessage None])
   \<and> basicTest None (viperIsSet legacyOnlyExample (\<lambda>key. True))
         (zeroConfig\<lparr>Domains := [''example.com'']\<rparr>) = Some DomainsOrAllowAllUsersNotSet"
  by (simp add: parseConfig_def basicTest_def viperIsSet_def UnmarshalKey_def legacyOnlyExample_def
      exampleInputs_def RequiredOptions_def LCName_def OldLCName_def emptySection_def
      decodeConfig_def decodeField_def decodeInt_def decodeSlice_def zeroConfig_def
      logError_def Let_def)

text \<open>
  The other way round: the section \<^verbatim>\<open>vouch\<close> sets \<^verbatim>\<open>allowAllUsers\<close> to \<^verbatim>\<open>false\<close> and no
  domains.  In \<^verbatim>\<open>Cfg\<close> the domain allow-list is empty and the flag is \<^verbatim>\<open>false\<close>, the key
  \<^verbatim>\<open>vouch.allowAllUsers\<close> is set, and \<^verbatim>\<open>basicTest\<close> returns no error.
\<close>

lemma basicTest_accepts_flag_false:
  "parseConfig (UnmarshalKey flagFalseExample) exampleInputs zeroConfig =
     Inr (zeroConfig\<lparr>JWT := (JWT zeroConfig)\<lparr>JWT_MaxAge := 240\<rparr>\<rparr>, [])
   \<and> basicTest None (viperIsSet flagFalseExample (\<lambda>key. True))
         (zeroConfig\<lparr>JWT := (JWT zeroConfig)\<lparr>JWT_MaxAge := 240\<rparr>\<rparr>) = None"
  by (simp add: parseConfig_def basicTest_def viperIsSet_def UnmarshalKey_def flagFalseExample_def
      exampleInputs_def RequiredOptions_def LCName_def OldLCName_def emptySection_def
      emptyJWT_def decodeConfig_def decodeJWT_def decodeField_def decodeInt_def decodeSlice_def
      zeroConfig_def logError_def Let_def)

text \<open>
  What line 318 tests is the presence of the two keys, for whatever \<^verbatim>\<open>viper.IsSet\<close>
  answers: with neither key \<^verbatim>\<open>basicTest\<close> returns an error, with one of them or both it
  does not return the error of line 319.
\<close>

lemma basicTest_key_presence:
  "(\<not> IsSet ''vouch.allowAllUsers'' \<and> \<not> IsSet ''vouch.domains''
      \<longrightarrow> basicTest oauthBasicTest IsSet Cfg \<noteq> None)
   \<and> (IsSet ''vouch.allowAllUsers'' \<or> IsSet ''vouch.domains''
      \<longrightarrow> basicTest oauthBasicTest IsSet Cfg \<noteq> Some DomainsOrAllowAllUsersNotSet)
   \<and> (\<not> IsSet ''vouch.allowAllUsers'' \<and> \<not> IsSet ''vouch.domains'' \<and> oauthBasicTest = None
       \<and> IsSet ''oauth.provider'' \<and> IsSet ''oauth.client_id''
      \<longrightarrow> basicTest oauthBasicTest IsSet Cfg = Some DomainsOrAllowAllUsersNotSet)"
  by (auto simp: basicTest_def RequiredOptions_def LCName_def split: option.splits)

text \<open>
  C6.  For positive maximal ages with the cookie's above the JWT's, \<^verbatim>\<open>basicTest\<close>
  returns an error and \<^verbatim>\<open>ValidateConfiguration\<close> panics; when the checks before line 338
  pass, the error is the one of line 345.
\<close>

theorem basicTest_cookie_maxAge_above_jwt:
  assumes "0 < JWT_MaxAge (JWT Cfg)" and "0 < Cookie_MaxAge (Cookie Cfg)"
    and "Cookie_MaxAge (Cookie Cfg) > JWT_MaxAge (JWT Cfg)"
  shows "basicTest oauthBasicTest IsSet Cfg \<noteq> None
    \<and> isl (ValidateConfiguration oauthBasicTest IsSet Cfg)
    \<and> (oauthBasicTest = None \<and> requiredOptionsSet IsSet RequiredOptions = None
         \<and> (IsSet (LCName @ ''.allowAllUsers'') \<or> IsSet (LCName @ ''.domains''))
       \<longrightarrow> basicTest oauthBasicTest IsSet Cfg =
             Some (CookieMaxAgeTooLarge (Cookie_MaxAge (Cookie Cfg)) (JWT_MaxAge (JWT Cfg))))"
  using assms
  by (auto simp: basicTest_def ValidateConfiguration_def split: option.splits)

theorem basicTest_cookie_maxAge_above_jwt_witness:
  "basicTest None (\<lambda>k. True)
     (zeroConfig\<lparr>JWT := (JWT zeroConfig)\<lparr>JWT_MaxAge := 50\<rparr>,
                 Cookie := (Cookie zeroConfig)\<lparr>Cookie_MaxAge := 100\<rparr>\<rparr>)
     = Some (CookieMaxAgeTooLarge 100 50)
   \<and> isl (ValidateConfiguration None (\<lambda>k. True)
       (zeroConfig\<lparr>JWT := (JWT zeroConfig)\<lparr>JWT_MaxAge := 50\<rparr>,
                   Cookie := (Cookie zeroConfig)\<lparr>Cookie_MaxAge := 100\<rparr>\<rparr>))"
  using basicTest_cookie_maxAge_above_jwt
          [of "zeroConfig\<lparr>JWT := (JWT zeroConfig)\<lparr>JWT_MaxAge := 50\<rparr>,
                           Cookie := (Cookie zeroConfig)\<lparr>Cookie_MaxAge := 100\<rparr>\<rparr>"
              None "\<lambda>k. True"]
  by (simp add: RequiredOptions_def)

text \<open>
  C7.  On a string of bytes that are printable and not disallowed, lines 381 to 395 (the
  replacement of the disallowed characters, then of the non-printable ones) return the
  string unchanged.  The whole function is not idempotent: under a non-empty prefix of
  such bytes, the header of the header of such a claim is not the header of the claim.
\<close>

theorem replacement_steps_idempotent:
  "(list_all cleanByte s \<longrightarrow>
      replaceNonPrintable (replaceDisallowed s) (replaceDisallowed s) = s)
   \<and> (Headers_ClaimHeader (Headers Cfg) \<noteq> [] \<and> list_all cleanByte (Headers_ClaimHeader (Headers Cfg))
        \<and> list_all cleanByte claim \<longrightarrow>
      fst (claimToHeader Cfg (fst (claimToHeader Cfg claim))) \<noteq> fst (claimToHeader Cfg claim))"
proof (intro conjI impI)
  assume "list_all cleanByte s"
  then have p: "list_all printable s" by (auto simp: list_all_iff cleanByte_def)
  with \<open>list_all cleanByte s\<close>
  show "replaceNonPrintable (replaceDisallowed s) (replaceDisallowed s) = s"
    by (simp add: replaceDisallowed_clean replaceNonPrintable_printable)
next
  define p where "p = Headers_ClaimHeader (Headers Cfg)"
  assume a: "Headers_ClaimHeader (Headers Cfg) \<noteq> [] \<and> list_all cleanByte (Headers_ClaimHeader (Headers Cfg))
        \<and> list_all cleanByte claim"
  then have ne: "p \<noteq> []" and cp: "list_all cleanByte p" and cc: "list_all cleanByte claim"
    by (simp_all add: p_def)
  have h1: "fst (claimToHeader Cfg claim) = p @ CanonicalHeaderKey claim"
    using cc by (simp add: claimToHeader_def Let_def sanitizeClaim_clean p_def)
  have c1: "list_all cleanByte (p @ CanonicalHeaderKey claim)"
    using cp cc CanonicalHeaderKey_clean [of claim] by simp
  have h2: "fst (claimToHeader Cfg (p @ CanonicalHeaderKey claim)) =
              p @ CanonicalHeaderKey (p @ CanonicalHeaderKey claim)"
    using c1 by (simp add: claimToHeader_def Let_def sanitizeClaim_clean p_def)
  have "length (fst (claimToHeader Cfg (fst (claimToHeader Cfg claim)))) =
          length p + (length p + length claim)"
    unfolding h1 h2 using CanonicalHeaderKey_clean [OF c1] CanonicalHeaderKey_clean [OF cc]
    by simp
  moreover have "length (fst (claimToHeader Cfg claim)) = length p + length claim"
    unfolding h1 using CanonicalHeaderKey_clean [OF cc] by simp
  ultimately show "fst (claimToHeader Cfg (fst (claimToHeader Cfg claim))) \<noteq> fst (claimToHeader Cfg claim)"
    using ne by (metis add_left_imp_eq add_cancel_left_left length_0_conv)
qed

theorem replacement_steps_idempotent_witness:
  "replaceNonPrintable (replaceDisallowed ''Example-Com-Roles'') (replaceDisallowed ''Example-Com-Roles'')
     = ''Example-Com-Roles''
   \<and> fst (claimToHeader (withClaimHeader ''X-Vouch-IdP-Claims-'' zeroConfig)
           (fst (claimToHeader (withClaimHeader ''X-Vouch-IdP-Claims-'' zeroConfig) ''roles'')))
     \<noteq> fst (claimToHeader (withClaimHeader ''X-Vouch-IdP-Claims-'' zeroConfig) ''roles'')"
proof -
  have a: "list_all cleanByte ''Example-Com-Roles''" by code_simp
  have b: "Headers_ClaimHeader (Headers (withClaimHeader ''X-Vouch-IdP-Claims-'' zeroConfig)) \<noteq> []
           \<and> list_all cleanByte
                (Headers_ClaimHeader (Headers (withClaimHeader ''X-Vouch-IdP-Claims-'' zeroConfig)))
           \<and> list_all cleanByte ''roles''"
    by code_simp
  from replacement_steps_idempotent
         [of "''Example-Com-Roles''" "withClaimHeader ''X-Vouch-IdP-Claims-'' zeroConfig" "''roles''"]
       a b
  show ?thesis by blast
qed

text \<open>
  C8.  \<^verbatim>\<open>claimToHeader\<close> returns a nil error for every configuration and every claim, and
  \<^verbatim>\<open>cleanClaimsHeaders\<close> returns nil for every configuration (and so every claim list).
\<close>

theorem sanitization_never_errors:
  "snd (claimToHeader Cfg claim) = None \<and> snd (cleanClaimsHeaders Cfg) = None"
  by (simp add: claimToHeader_def cleanClaimsHeaders_def cleanedHeadersLoop_eq Let_def)

text \<open>
  C9.  The header is the prefix followed by the canonicalized sanitized claim, and the
  header under a prefix \<open>p\<close> is \<open>p\<close> followed by the header under the empty prefix: the
  prefix is copied as it is, whatever bytes it holds, and the rest does not depend on
  it.
\<close>

theorem claimToHeader_prefix_verbatim:
  "fst (claimToHeader Cfg claim) =
     Headers_ClaimHeader (Headers Cfg) @ CanonicalHeaderKey (sanitizeClaim claim)
   \<and> fst (claimToHeader (withClaimHeader p Cfg) claim) =
     p @ fst (claimToHeader (withClaimHeader [] Cfg) claim)"
  by (simp add: claimToHeader_def withClaimHeader_def Let_def)

text \<open>An instance of C9 with a prefix of disallowed characters and lower case letters.\<close>

theorem claimToHeader_prefix_verbatim_witness:
  "fst (claimToHeader (withClaimHeader ''x_(y):'' zeroConfig) ''a.b'') = ''x_(y):A-B''"
proof -
  have "fst (claimToHeader (withClaimHeader [] zeroConfig) ''a.b'') = ''A-B''"
    by code_simp
  with claimToHeader_prefix_verbatim [of zeroConfig "''a.b''" "''x_(y):''"]
  show ?thesis by simp
qed

text \<open>
  C10.  The loop of lines 389 to 395 against the single pass that turns every character
  with a code point below 33 or above 126 into a hyphen, on the claim that is the one
  byte \<^verbatim>\<open>0xFF\<close> (no well-formed UTF-8).  \<^verbatim>\<open>range\<close> yields the rune U+FFFD, which is above
  126: the condition of line 391 holds, the loop looks for the three bytes of
  \<^verbatim>\<open>string(r)\<close> in the claim, finds none, and the byte stays.  The single pass writes a
  hyphen.
\<close>

theorem replaceNonPrintable_invalid_utf8:
  "runes [CHR 0xFF] = [RuneError]
   \<and> replaceNonPrintable [CHR 0xFF] [CHR 0xFF] = [CHR 0xFF]
   \<and> replaceNonPrintableRunes [CHR 0xFF] = ''-''"
  by code_simp

text \<open>
  On every claim that is well-formed UTF-8 the loop returns what the single pass
  returns.
\<close>

lemma replaceNonPrintable_single_pass:
  "ValidString s \<Longrightarrow> replaceNonPrintable s s = replaceNonPrintableRunes s"
  using replaceNonPrintable_valid [of s "[]"] by simp

lemma replaceNonPrintable_single_pass_example:
  "replaceNonPrintable [CHR ''a'', CHR 0xC3, CHR 0xA9, CHR 0x20, CHR ''b'', CHR 0xC3, CHR 0xA9]
       [CHR ''a'', CHR 0xC3, CHR 0xA9, CHR 0x20, CHR ''b'', CHR 0xC3, CHR 0xA9] = ''a--b-''
   \<and> replaceNonPrintableRunes [CHR ''a'', CHR 0xC3, CHR 0xA9, CHR 0x20, CHR ''b'', CHR 0xC3, CHR 0xA9] = ''a--b-''"
proof -
  have v: "ValidString [CHR ''a'', CHR 0xC3, CHR 0xA9, CHR 0x20, CHR ''b'', CHR 0xC3, CHR 0xA9]"
    by code_simp
  have e: "replaceNonPrintableRunes [CHR ''a'', CHR 0xC3, CHR 0xA9, CHR 0x20, CHR ''b'', CHR 0xC3, CHR 0xA9] = ''a--b-''"
    by code_simp
  from replaceNonPrintable_single_pass [OF v] e show ?thesis by simp
qed

end
